theory Spec2Isabelle
  imports Main
begin

section \<open>Strings and identifiers\<close>

text \<open>
  JavaScript strings are modelled as \<^typ>\<open>string\<close>, one \<^typ>\<open>char\<close> per code unit.
  \<^verbatim>\<open>Array.prototype.sort()\<close> without a comparator orders strings by their code units;
  \<open>str_lt\<close> is that order.
\<close>

fun str_lt :: "string \<Rightarrow> string \<Rightarrow> bool" where
  "str_lt [] [] = False"
| "str_lt [] (y # ys) = True"
| "str_lt (x # xs) [] = False"
| "str_lt (x # xs) (y # ys) =
     (if (of_char x :: nat) < of_char y then True
      else if (of_char y :: nat) < of_char x then False
      else str_lt xs ys)"

definition isSpace :: "char \<Rightarrow> bool" where
  "isSpace c = ((of_char c :: nat) \<in> {9, 10, 11, 12, 13, 32, 160})"

text \<open>\<^verbatim>\<open>String.prototype.trim()\<close>.\<close>

definition trim :: "string \<Rightarrow> string" where
  "trim s = rev (dropWhile isSpace (rev (dropWhile isSpace s)))"

text \<open>
  \<^verbatim>\<open>Types.ObjectId\<close>: twelve bytes, written as 24 hexadecimal digits. \<^verbatim>\<open>isValid\<close>
  accepts a string of 24 hexadecimal digits in either case; the constructor throws on any
  other string; \<^verbatim>\<open>toString()\<close> prints lower-case digits and \<^verbatim>\<open>equals\<close> compares the
  bytes. An ObjectId is therefore modelled by its lower-case hexadecimal string.
\<close>

type_synonym objectId = string

definition isHex :: "char \<Rightarrow> bool" where
  "isHex c = (c \<in> set ''0123456789abcdefABCDEF'')"

definition hexLower :: "char \<Rightarrow> char" where
  "hexLower c =
     (if c = CHR ''A'' then CHR ''a'' else if c = CHR ''B'' then CHR ''b''
      else if c = CHR ''C'' then CHR ''c'' else if c = CHR ''D'' then CHR ''d''
      else if c = CHR ''E'' then CHR ''e'' else if c = CHR ''F'' then CHR ''f''
      else c)"

definition isValid :: "string \<Rightarrow> bool" where
  "isValid s = (length s = 24 \<and> list_all isHex s)"

datatype failure =
    Response nat string
  | BSONError
  | CastError
  | ValidationError
  | PersistenceError
  | TypeError

definition oidOf :: "string \<Rightarrow> objectId" where
  "oidOf s = map hexLower s"

definition ObjectId :: "string \<Rightarrow> failure + objectId" where
  "ObjectId s = (if isValid s then Inr (oidOf s) else Inl BSONError)"

text \<open>\<^verbatim>\<open>String.prototype.toLowerCase()\<close> on the ASCII letters.\<close>

definition lowerChar :: "char \<Rightarrow> char" where
  "lowerChar c =
     (if 65 \<le> (of_char c :: nat) \<and> (of_char c :: nat) \<le> 90
      then char_of ((of_char c :: nat) + 32) else c)"

definition toLowerCase :: "string \<Rightarrow> string" where
  "toLowerCase s = map lowerChar s"

text \<open>\<^verbatim>\<open>String(x ?? d)\<close> for a request field that is a string or absent.\<close>

definition orDefault :: "string option \<Rightarrow> string \<Rightarrow> string" where
  "orDefault x d = (case x of None \<Rightarrow> d | Some s \<Rightarrow> s)"

section \<open>Documents and the store\<close>

text \<open>Dates are milliseconds since the epoch.\<close>

record user =
  u_id :: objectId
  isOnline :: bool
  lastSeen :: int

record conversation =
  c_id :: objectId
  participants :: "objectId list"
  participantKey :: string
  c_hiddenFor :: "objectId list"
  lastMessageText :: string
  lastMessageAt :: int

record message =
  m_id :: objectId
  conversationId :: objectId
  senderId :: objectId
  recipientId :: objectId
  m_text :: string
  readBy :: "objectId list"
  m_hiddenFor :: "objectId list"
  isDeletedForEveryone :: bool
  deletedAt :: "int option"
  createdAt :: int

record db =
  users :: "user list"
  conversations :: "conversation list"
  messages :: "message list"

text \<open>\<^verbatim>\<open>Conversation.findOne({ participantKey })\<close>.\<close>

definition Conversation_findOne :: "string \<Rightarrow> db \<Rightarrow> conversation option" where
  "Conversation_findOne key d = find (\<lambda>c. participantKey c = key) (conversations d)"

text \<open>
  The model named \<^verbatim>\<open>Conversation\<close> is registered by \<^verbatim>\<open>server.js\<close> when the process starts,
  with the schema \<^verbatim>\<open>{ participants: [ObjectId] }\<close> and \<^verbatim>\<open>strict: false\<close>;
  \<^verbatim>\<open>models/Conversation.ts\<close> exports \<^verbatim>\<open>models.Conversation || model(...)\<close> and so keeps
  that model. The schema of \<^verbatim>\<open>models/Conversation.ts\<close>, with its unique index on
  \<^verbatim>\<open>participantKey\<close>, its validator on the number of participants and its paths
  \<^verbatim>\<open>hiddenFor\<close>, \<^verbatim>\<open>lastMessageText\<close> and \<^verbatim>\<open>lastMessageAt\<close>, is never compiled.

  \<^verbatim>\<open>Conversation.create(doc)\<close>: with \<^verbatim>\<open>strict: false\<close> every field given is stored; no index
  and no validator rejects the document.
\<close>

definition Conversation_create :: "conversation \<Rightarrow> db \<Rightarrow> conversation \<times> db" where
  "Conversation_create doc d = (doc, d\<lparr>conversations := conversations d @ [doc]\<rparr>)"

text \<open>\<^verbatim>\<open>x ?? []\<close>.\<close>

definition orEmpty :: "'a list option \<Rightarrow> 'a list" where
  "orEmpty x = (case x of None \<Rightarrow> [] | Some xs \<Rightarrow> xs)"

text \<open>
  A document returned by \<^verbatim>\<open>findOne\<close>, \<^verbatim>\<open>findById\<close> or \<^verbatim>\<open>create\<close> has accessors for \<^verbatim>\<open>_id\<close> and
  for the paths of the registered schema. \<^verbatim>\<open>hiddenFor\<close> is not one of them: reading
  \<^verbatim>\<open>conversation.hiddenFor\<close> gives \<^verbatim>\<open>undefined\<close>, whatever the stored document holds.
\<close>

definition conversation_hiddenFor :: "conversation \<Rightarrow> objectId list option" where
  "conversation_hiddenFor conversation = None"

text \<open>
  \<^verbatim>\<open>conversation.save()\<close> writes the paths of the registered schema back under the \<^verbatim>\<open>_id\<close>
  of the document. An assignment to \<^verbatim>\<open>hiddenFor\<close>, \<^verbatim>\<open>lastMessageText\<close> or \<^verbatim>\<open>lastMessageAt\<close>
  sets a property of the object in memory only, and \<open>save\<close> leaves the stored field as
  it is.
\<close>

definition Conversation_save :: "conversation \<Rightarrow> db \<Rightarrow> db" where
  "Conversation_save doc d =
     d\<lparr>conversations :=
         map (\<lambda>c. if c_id c = c_id doc then c\<lparr>participants := participants doc\<rparr> else c)
           (conversations d)\<rparr>"

section \<open>lib/conversation.ts\<close>

definition buildParticipantKey :: "string \<Rightarrow> string \<Rightarrow> string" where
  "buildParticipantKey a b = (if str_lt b a then b @ '':'' @ a else a @ '':'' @ b)"

text \<open>
  \<open>getOrCreateConversation\<close> in its two database steps. \<open>newId\<close> is the \<^verbatim>\<open>_id\<close> the driver
  gives a created document and \<open>now\<close> the clock. The first step builds the key and the
  caller's ObjectId (which throws on an invalid string) and looks the key up; the second
  step acts on what the lookup returned. In the second branch the record update stands
  for the assignment to the object in memory.
\<close>

definition goc_lookup :: "string \<Rightarrow> string \<Rightarrow> db \<Rightarrow> failure + conversation option" where
  "goc_lookup userA userB d =
     (case ObjectId userA of
        Inl e \<Rightarrow> Inl e
      | Inr currentUserObjectId \<Rightarrow> Inr (Conversation_findOne (buildParticipantKey userA userB) d))"

definition goc_complete ::
  "string \<Rightarrow> string \<Rightarrow> objectId \<Rightarrow> int \<Rightarrow> conversation option \<Rightarrow> db
     \<Rightarrow> failure + (conversation \<times> db)" where
  "goc_complete userA userB newId now found d =
     (case ObjectId userA of
        Inl e \<Rightarrow> Inl e
      | Inr currentUserObjectId \<Rightarrow>
          (case found of
             None \<Rightarrow>
               (case ObjectId userB of
                  Inl e \<Rightarrow> Inl e
                | Inr otherObjectId \<Rightarrow>
                    Inr (Conversation_create
                           \<lparr>c_id = newId,
                            participants = [currentUserObjectId, otherObjectId],
                            participantKey = buildParticipantKey userA userB,
                            c_hiddenFor = [],
                            lastMessageText = [],
                            lastMessageAt = now\<rparr> d))
           | Some conversation \<Rightarrow>
               if list_ex (\<lambda>userId. userId = currentUserObjectId)
                    (orEmpty (conversation_hiddenFor conversation))
               then
                 (let conversation' = conversation
                        \<lparr>c_hiddenFor :=
                           filter (\<lambda>userId. userId \<noteq> currentUserObjectId)
                             (orEmpty (conversation_hiddenFor conversation))\<rparr>
                  in Inr (conversation', Conversation_save conversation' d))
               else Inr (conversation, d)))"

definition getOrCreateConversation ::
  "string \<Rightarrow> string \<Rightarrow> objectId \<Rightarrow> int \<Rightarrow> db \<Rightarrow> failure + (conversation \<times> db)" where
  "getOrCreateConversation userA userB newId now d =
     (case goc_lookup userA userB d of
        Inl e \<Rightarrow> Inl e
      | Inr found \<Rightarrow> goc_complete userA userB newId now found d)"

section \<open>Collections used by the request handlers\<close>

text \<open>\<^verbatim>\<open>User.findById(id)\<close>: the string is cast to an ObjectId first.\<close>

definition User_findById :: "string \<Rightarrow> db \<Rightarrow> failure + user option" where
  "User_findById userId d =
     (if isValid userId then Inr (find (\<lambda>u. u_id u = oidOf userId) (users d))
      else Inl CastError)"

text \<open>\<^verbatim>\<open>User.findByIdAndUpdate(id, update)\<close>: no document is written when none has the id.\<close>

definition User_findByIdAndUpdate :: "string \<Rightarrow> (user \<Rightarrow> user) \<Rightarrow> db \<Rightarrow> failure + db" where
  "User_findByIdAndUpdate userId upd d =
     (if isValid userId
      then Inr (d\<lparr>users := map (\<lambda>u. if u_id u = oidOf userId then upd u else u) (users d)\<rparr>)
      else Inl CastError)"

definition Message_findById :: "objectId \<Rightarrow> db \<Rightarrow> message option" where
  "Message_findById mid d = find (\<lambda>m. m_id m = mid) (messages d)"

text \<open>
  No other file registers a model named \<^verbatim>\<open>Message\<close>, so that model has the schema written
  for it, which declares
  \<^verbatim>\<open>text: { type: String, required: true, trim: true }\<close>: the text is trimmed when it is
  set, and validation rejects a document whose text is empty.

  \<^verbatim>\<open>Message.create(doc)\<close> returns the document it stored.
\<close>

definition Message_create :: "message \<Rightarrow> db \<Rightarrow> failure + (message \<times> db)" where
  "Message_create doc d =
     (let message = doc\<lparr>m_text := trim (m_text doc)\<rparr>
      in if m_text message = [] then Inl ValidationError
         else Inr (message, d\<lparr>messages := messages d @ [message]\<rparr>))"

text \<open>\<^verbatim>\<open>message.save()\<close>: validates, then writes the document back under its \<^verbatim>\<open>_id\<close>.\<close>

definition Message_save :: "message \<Rightarrow> db \<Rightarrow> failure + db" where
  "Message_save doc d =
     (if m_text doc = [] then Inl ValidationError
      else Inr (d\<lparr>messages :=
                   map (\<lambda>m. if m_id m = m_id doc then doc else m) (messages d)\<rparr>))"

text \<open>
  \<^verbatim>\<open>.sort({ createdAt: -1 })\<close> followed by \<^verbatim>\<open>findOne\<close>: a document with the greatest
  \<^verbatim>\<open>createdAt\<close>; among equal dates the one stored first.
\<close>

fun latestOf :: "message list \<Rightarrow> message option" where
  "latestOf [] = None"
| "latestOf (m # ms) =
     (case latestOf ms of
        None \<Rightarrow> Some m
      | Some m' \<Rightarrow> if createdAt m' > createdAt m then Some m' else Some m)"

text \<open>\<^verbatim>\<open>$addToSet\<close> on an array field.\<close>

definition addToSet :: "objectId \<Rightarrow> objectId list \<Rightarrow> objectId list" where
  "addToSet x xs = (if x \<in> set xs then xs else xs @ [x])"

text \<open>
  \<^verbatim>\<open>.limit(n)\<close> of the driver: \<open>0\<close> means no limit. \<open>limit\<close> stands for the value of
  \<^verbatim>\<open>Math.min(Number(searchParams.get("limit") ?? k), m)\<close> when that is a natural number.
\<close>

definition limited :: "nat \<Rightarrow> 'a list \<Rightarrow> 'a list" where
  "limited n xs = (if n = 0 then xs else take n xs)"

section \<open>lib/sanitize.ts\<close>

text \<open>
  \<open>sanitizeHtml\<close> is the \<^verbatim>\<open>sanitize-html\<close> package called with no allowed tag and no
  allowed attribute; it is a parameter of the model.
\<close>

definition sanitizePlainText :: "(string \<Rightarrow> string) \<Rightarrow> string \<Rightarrow> string" where
  "sanitizePlainText sanitizeHtml input = trim (sanitizeHtml input)"

definition sanitizeMessage :: "(string \<Rightarrow> string) \<Rightarrow> string \<Rightarrow> string" where
  "sanitizeMessage sanitizeHtml input = take 2000 (sanitizePlainText sanitizeHtml input)"

section \<open>lib/realtime-emitter.ts\<close>

text \<open>
  The payload object of a realtime event, with the fields the handlers write and the
  router reads. An absent field is \<open>None\<close>. \<open>emitRealtimeEvent\<close> posts \<open>(type, payload)\<close> to
  the router and swallows a failed post, so a handler's emissions are the list of
  \<open>(type, payload)\<close> pairs it hands over.
\<close>

record payload =
  p_conversationId :: "string option"
  p_messageId :: "string option"
  p_senderId :: "string option"
  p_recipientId :: "string option"
  p_targetUserId :: "string option"
  p_mode :: "string option"
  p_readerId :: "string option"
  p_messageIds :: "string list"
  p_text :: "string option"
  p_at :: "int option"

definition emptyPayload :: payload where
  "emptyPayload =
     \<lparr>p_conversationId = None, p_messageId = None, p_senderId = None, p_recipientId = None,
      p_targetUserId = None, p_mode = None, p_readerId = None, p_messageIds = [],
      p_text = None, p_at = None\<rparr>"

type_synonym emission = "string \<times> payload"

section \<open>app/api/messages/route.ts\<close>

text \<open>
  A handler returns its response (or the failure that ended it), the store it leaves and
  the realtime events it handed to \<open>emitRealtimeEvent\<close>. \<open>authUser\<close> is the result of
  \<open>requireAuth\<close>: the user id of the verified token, or \<open>None\<close>.
\<close>

definition GET_messages ::
  "(string \<Rightarrow> string) \<Rightarrow> string option \<Rightarrow> string option \<Rightarrow> int option \<Rightarrow> nat
     \<Rightarrow> objectId \<Rightarrow> int \<Rightarrow> db \<Rightarrow> (failure + (string \<times> message list \<times> int option)) \<times> db" where
  "GET_messages sanitizeHtml authUser q_userId cursor limit newId now d =
     (case authUser of
        None \<Rightarrow> (Inl (Response 401 ''Unauthorized''), d)
      | Some authUserId \<Rightarrow>
          (let userId = trim (orDefault q_userId []) in
           if userId = [] \<or> \<not> isValid userId
           then (Inl (Response 400 ''Valid userId is required.''), d)
           else
             (case getOrCreateConversation authUserId userId newId now d of
                Inl e \<Rightarrow> (Inl e, d)
              | Inr (conversation, d') \<Rightarrow>
                  (case ObjectId authUserId of
                     Inl e \<Rightarrow> (Inl e, d')
                   | Inr me \<Rightarrow>
                       (let found =
                              limited limit
                                (sort_key (\<lambda>m. - createdAt m)
                                   (filter
                                      (\<lambda>m. conversationId m = c_id conversation
                                         \<and> me \<notin> set (m_hiddenFor m)
                                         \<and> (case cursor of None \<Rightarrow> True
                                             | Some t \<Rightarrow> createdAt m < t))
                                      (messages d')));
                            shown =
                              map (\<lambda>m. m\<lparr>m_text := sanitizeMessage sanitizeHtml (m_text m)\<rparr>)
                                (rev found)
                        in if length found = limit
                           then (if found = [] then (Inl TypeError, d')
                                 else (Inr (c_id conversation, shown,
                                            Some (createdAt (last (rev found)))), d'))
                           else (Inr (c_id conversation, shown, None), d'))))))"

text \<open>The \<^verbatim>\<open>message\<close> object of the \<open>POST\<close> response.\<close>

record message_view =
  v_id :: string
  v_conversationId :: string
  v_senderId :: string
  v_recipientId :: string
  v_text :: string
  v_readBy :: "string list"
  v_isDeletedForEveryone :: bool
  v_deletedAt :: "int option"
  v_createdAt :: int

text \<open>
  \<open>POST\<close>: send a message. \<open>up n\<close> tells whether the database answers the \<open>n\<close>-th
  persistence step of the request (0: \<open>User.findById\<close>, 1: \<open>getOrCreateConversation\<close>,
  2: \<open>Message.create\<close>, 3: \<open>conversation.save\<close>); a step that fails rejects, and the handler
  ends there. The response and the event carry the handler's \<open>text\<close>, the stored message
  the text as the schema set it.
\<close>

definition POST_messages ::
  "(nat \<Rightarrow> bool) \<Rightarrow> (string \<Rightarrow> string) \<Rightarrow> string option \<Rightarrow> string option \<Rightarrow> string option
     \<Rightarrow> objectId \<Rightarrow> objectId \<Rightarrow> int \<Rightarrow> db \<Rightarrow> (failure + message_view) \<times> db \<times> emission list" where
  "POST_messages up sanitizeHtml authUser b_toUserId b_text newConvId newMsgId now d =
     (case authUser of
        None \<Rightarrow> (Inl (Response 401 ''Unauthorized''), d, [])
      | Some authUserId \<Rightarrow>
          (let toUserId = trim (orDefault b_toUserId []);
               rawText = orDefault b_text [];
               text = take 2000 (sanitizeMessage sanitizeHtml rawText)
           in if toUserId = [] \<or> \<not> isValid toUserId
              then (Inl (Response 400 ''Valid recipient is required.''), d, [])
              else if text = []
              then (Inl (Response 400 ''Message text is required.''), d, [])
              else if \<not> up 0 then (Inl PersistenceError, d, [])
              else
                (case User_findById toUserId d of
                   Inl e \<Rightarrow> (Inl e, d, [])
                 | Inr None \<Rightarrow> (Inl (Response 404 ''Recipient not found.''), d, [])
                 | Inr (Some recipient) \<Rightarrow>
                     if \<not> up 1 then (Inl PersistenceError, d, [])
                     else
                       (case getOrCreateConversation authUserId toUserId newConvId now d of
                          Inl e \<Rightarrow> (Inl e, d, [])
                        | Inr (conversation, d1) \<Rightarrow>
                            (case ObjectId authUserId of
                               Inl e \<Rightarrow> (Inl e, d1, [])
                             | Inr sender \<Rightarrow>
                                 if \<not> up 2 then (Inl PersistenceError, d1, [])
                                 else
                                   (case Message_create
                                           \<lparr>m_id = newMsgId,
                                            conversationId = c_id conversation,
                                            senderId = sender,
                                            recipientId = oidOf toUserId,
                                            m_text = text,
                                            readBy = [sender],
                                            m_hiddenFor = [],
                                            isDeletedForEveryone = False,
                                            deletedAt = None,
                                            createdAt = now\<rparr> d1 of
                                      Inl e \<Rightarrow> (Inl e, d1, [])
                                    | Inr (message, d2) \<Rightarrow>
                                        if \<not> up 3 then (Inl PersistenceError, d2, [])
                                        else
                                          (let d3 = Conversation_save
                                                      (conversation
                                                         \<lparr>lastMessageText := text,
                                                          lastMessageAt := now\<rparr>) d2
                                           in (Inr \<lparr>v_id = m_id message,
                                                    v_conversationId = c_id conversation,
                                                    v_senderId = authUserId,
                                                    v_recipientId = toUserId,
                                                    v_text = text,
                                                    v_readBy = [authUserId],
                                                    v_isDeletedForEveryone = False,
                                                    v_deletedAt = None,
                                                    v_createdAt = createdAt message\<rparr>,
                                               d3,
                                               [(''message:new'',
                                                 emptyPayload
                                                   \<lparr>p_conversationId := Some (c_id conversation),
                                                    p_messageId := Some (m_id message),
                                                    p_senderId := Some authUserId,
                                                    p_recipientId := Some toUserId,
                                                    p_text := Some text,
                                                    p_at := Some (createdAt message)\<rparr>)]))))))))"

text \<open>The text of the 400 response to a mode that is neither \<^verbatim>\<open>me\<close> nor \<^verbatim>\<open>everyone\<close>.\<close>

definition modeError :: string where
  "modeError =
     ''mode must be '' @ [CHR 0x27] @ ''me'' @ [CHR 0x27] @ '' or '' @ [CHR 0x27] @ ''everyone''
       @ [CHR 0x27] @ ''.''"

text \<open>
  \<open>DELETE\<close>: delete a message for the caller or for everyone. A \<open>save\<close> that rejects ends
  the handler: nothing after it runs.
\<close>

definition DELETE_messages ::
  "string option \<Rightarrow> string option \<Rightarrow> string option \<Rightarrow> int \<Rightarrow> db
     \<Rightarrow> (failure + (string \<times> string)) \<times> db \<times> emission list" where
  "DELETE_messages authUser b_messageId b_mode now d =
     (case authUser of
        None \<Rightarrow> (Inl (Response 401 ''Unauthorized''), d, [])
      | Some authUserId \<Rightarrow>
          (let messageId = trim (orDefault b_messageId []);
               mode = toLowerCase (trim (orDefault b_mode ''me''))
           in if messageId = [] \<or> \<not> isValid messageId
              then (Inl (Response 400 ''Valid messageId is required.''), d, [])
              else if mode \<noteq> ''me'' \<and> mode \<noteq> ''everyone''
              then (Inl (Response 400 modeError), d, [])
              else
                (case Message_findById (oidOf messageId) d of
                   None \<Rightarrow> (Inl (Response 404 ''Message not found.''), d, [])
                 | Some message \<Rightarrow>
                     (case ObjectId authUserId of
                        Inl e \<Rightarrow> (Inl e, d, [])
                      | Inr requesterId \<Rightarrow>
                          if \<not> (senderId message = requesterId \<or> recipientId message = requesterId)
                          then (Inl (Response 403 ''Forbidden.''), d, [])
                          else if mode = ''everyone'' \<and> senderId message \<noteq> requesterId
                          then (Inl (Response 403 ''Only sender can delete for everyone.''), d, [])
                          else if mode = ''me''
                          then
                            (case (if \<not> list_ex (\<lambda>userId. userId = requesterId)
                                           (m_hiddenFor message)
                                   then Message_save
                                          (message\<lparr>m_hiddenFor :=
                                             m_hiddenFor message @ [requesterId]\<rparr>) d
                                   else Inr d) of
                               Inl e \<Rightarrow> (Inl e, d, [])
                             | Inr d1 \<Rightarrow>
                                 (Inr (m_id message, ''me''), d1,
                                  [(''message:deleted'',
                                    emptyPayload
                                      \<lparr>p_conversationId := Some (conversationId message),
                                       p_messageId := Some (m_id message),
                                       p_mode := Some ''me'',
                                       p_targetUserId := Some authUserId\<rparr>)]))
                          else
                            (case Message_save
                                    (message
                                       \<lparr>isDeletedForEveryone := True,
                                        deletedAt := Some now,
                                        m_text := []\<rparr>) d of
                               Inl e \<Rightarrow> (Inl e, d, [])
                             | Inr d1 \<Rightarrow>
                                 (let latestMessage =
                                        latestOf
                                          (filter (\<lambda>m. conversationId m = conversationId message)
                                             (messages d1));
                                      d2 =
                                        (case find (\<lambda>c. c_id c = conversationId message)
                                                (conversations d1) of
                                           None \<Rightarrow> d1
                                         | Some conversation \<Rightarrow>
                                             Conversation_save
                                               (case latestMessage of
                                                  Some latest \<Rightarrow>
                                                    conversation
                                                      \<lparr>lastMessageText :=
                                                         (if isDeletedForEveryone latest
                                                          then ''This message was deleted''
                                                          else m_text latest),
                                                       lastMessageAt := createdAt latest\<rparr>
                                                | None \<Rightarrow>
                                                    conversation
                                                      \<lparr>lastMessageText := [],
                                                       lastMessageAt := now\<rparr>) d1)
                                  in (Inr (m_id message, ''everyone''), d2,
                                      [(''message:deleted'',
                                        emptyPayload
                                          \<lparr>p_conversationId := Some (conversationId message),
                                           p_messageId := Some (m_id message),
                                           p_mode := Some ''everyone'',
                                           p_at := Some now,
                                           p_senderId := Some (senderId message),
                                           p_recipientId := Some (recipientId message)\<rparr>)])))))))"

section \<open>app/api/messages/read/route.ts\<close>

definition POST_read ::
  "string option \<Rightarrow> string option \<Rightarrow> db \<Rightarrow> (failure + nat) \<times> db \<times> emission list" where
  "POST_read authUser b_conversationId d =
     (case authUser of
        None \<Rightarrow> (Inl (Response 401 ''Unauthorized''), d, [])
      | Some authUserId \<Rightarrow>
          (let cid = trim (orDefault b_conversationId []) in
           if cid = [] \<or> \<not> isValid cid
           then (Inl (Response 400 ''Valid conversationId is required.''), d, [])
           else
             (case ObjectId authUserId of
                Inl e \<Rightarrow> (Inl e, d, [])
              | Inr me \<Rightarrow>
                  (let unreadMessages =
                         filter
                           (\<lambda>m. conversationId m = oidOf cid \<and> recipientId m = me
                              \<and> me \<notin> set (readBy m) \<and> me \<notin> set (m_hiddenFor m))
                           (messages d)
                   in if length unreadMessages = 0 then (Inr 0, d, [])
                      else
                        (let messageIds = map m_id unreadMessages;
                             d1 = d\<lparr>messages :=
                                    map (\<lambda>m. if m_id m \<in> set messageIds
                                              then m\<lparr>readBy := addToSet me (readBy m)\<rparr>
                                              else m)
                                      (messages d)\<rparr>
                         in (Inr (length messageIds), d1,
                             [(''message:read'',
                               emptyPayload
                                 \<lparr>p_conversationId := Some cid,
                                  p_readerId := Some authUserId,
                                  p_messageIds := messageIds\<rparr>)]))))))"

section \<open>app/api/conversations/route.ts\<close>

record conv_item =
  i_conversationId :: string
  i_lastMessageText :: string
  i_lastMessageAt :: int
  i_user :: user

text \<open>
  \<open>GET\<close>, the conversation list, in the handler's three parts: the query
  (\<^verbatim>\<open>Conversation.find(filter).sort({ lastMessageAt: -1 }).limit(limit)\<close>), the item built
  for one conversation of the result (\<open>None\<close> where the handler returns \<^verbatim>\<open>null\<close>), and the
  response.
\<close>

definition conversationQuery :: "objectId \<Rightarrow> nat \<Rightarrow> int option \<Rightarrow> db \<Rightarrow> conversation list" where
  "conversationQuery currentUserObjectId limit cursor d =
     limited limit
       (sort_key (\<lambda>c. - lastMessageAt c)
          (filter
             (\<lambda>c. currentUserObjectId \<in> set (participants c)
                \<and> currentUserObjectId \<notin> set (c_hiddenFor c)
                \<and> (case cursor of None \<Rightarrow> True | Some t \<Rightarrow> lastMessageAt c < t))
             (conversations d)))"

definition latestVisibleMessage :: "objectId \<Rightarrow> db \<Rightarrow> conversation \<Rightarrow> message option" where
  "latestVisibleMessage currentUserObjectId d c =
     latestOf
       (filter
          (\<lambda>m. conversationId m = c_id c \<and> currentUserObjectId \<notin> set (m_hiddenFor m))
          (messages d))"

definition conversationItem ::
  "(string \<Rightarrow> string) \<Rightarrow> string \<Rightarrow> objectId \<Rightarrow> db \<Rightarrow> conversation \<Rightarrow> conv_item option" where
  "conversationItem sanitizeHtml authUserId currentUserObjectId d c =
     (case find (\<lambda>participant. participant \<noteq> authUserId) (participants c) of
        None \<Rightarrow> None
      | Some otherParticipantId \<Rightarrow>
          (case find (\<lambda>u. u_id u = otherParticipantId) (users d) of
             None \<Rightarrow> None
           | Some otherUser \<Rightarrow>
               Some
                 \<lparr>i_conversationId = c_id c,
                  i_lastMessageText =
                    (case latestVisibleMessage currentUserObjectId d c of
                       None \<Rightarrow> []
                     | Some m \<Rightarrow>
                         if isDeletedForEveryone m then ''This message was deleted''
                         else sanitizeMessage sanitizeHtml (m_text m)),
                  i_lastMessageAt =
                    (case latestVisibleMessage currentUserObjectId d c of
                       None \<Rightarrow> lastMessageAt c
                     | Some m \<Rightarrow> createdAt m),
                  i_user = otherUser\<rparr>))"

definition GET_conversations ::
  "(string \<Rightarrow> string) \<Rightarrow> string option \<Rightarrow> nat \<Rightarrow> int option \<Rightarrow> db
     \<Rightarrow> failure + (conv_item list \<times> int option)" where
  "GET_conversations sanitizeHtml authUser limit cursor d =
     (case authUser of
        None \<Rightarrow> Inl (Response 401 ''Unauthorized'')
      | Some authUserId \<Rightarrow>
          (case ObjectId authUserId of
             Inl e \<Rightarrow> Inl e
           | Inr currentUserObjectId \<Rightarrow>
               (let convs = conversationQuery currentUserObjectId limit cursor d;
                    items =
                      List.map_filter
                        (conversationItem sanitizeHtml authUserId currentUserObjectId d) convs
                in if length convs = limit
                   then (if convs = [] then Inl TypeError
                         else Inr (items, Some (lastMessageAt (last convs))))
                   else Inr (items, None))))"

text \<open>\<^verbatim>\<open>deleteOne(filter)\<close>: removes the first document that matches.\<close>

fun deleteOne :: "('a \<Rightarrow> bool) \<Rightarrow> 'a list \<Rightarrow> 'a list" where
  "deleteOne P [] = []"
| "deleteOne P (x # xs) = (if P x then xs else x # deleteOne P xs)"

definition DELETE_conversations ::
  "string option \<Rightarrow> string option \<Rightarrow> string option \<Rightarrow> db
     \<Rightarrow> (failure + (string \<times> string)) \<times> db" where
  "DELETE_conversations authUser b_conversationId b_mode d =
     (case authUser of
        None \<Rightarrow> (Inl (Response 401 ''Unauthorized''), d)
      | Some authUserId \<Rightarrow>
          (let cid = trim (orDefault b_conversationId []);
               mode = toLowerCase (trim (orDefault b_mode ''everyone''))
           in if cid = [] \<or> \<not> isValid cid
              then (Inl (Response 400 ''Valid conversationId is required.''), d)
              else
                (case ObjectId authUserId of
                   Inl e \<Rightarrow> (Inl e, d)
                 | Inr currentUserObjectId \<Rightarrow>
                     (case find (\<lambda>c. c_id c = oidOf cid
                                    \<and> currentUserObjectId \<in> set (participants c))
                             (conversations d) of
                        None \<Rightarrow> (Inl (Response 404 ''Conversation not found.''), d)
                      | Some conversation \<Rightarrow>
                          if mode \<noteq> ''me'' \<and> mode \<noteq> ''everyone''
                          then (Inl (Response 400 modeError), d)
                          else if mode = ''me''
                          then
                            (let hiddenFor = orEmpty (conversation_hiddenFor conversation);
                                 d1 = (if \<not> list_ex (\<lambda>userId. userId = currentUserObjectId)
                                              hiddenFor
                                       then Conversation_save
                                              (conversation
                                                 \<lparr>c_hiddenFor := hiddenFor @ [currentUserObjectId]\<rparr>)
                                              d
                                       else d);
                                 d2 = d1\<lparr>messages :=
                                        map (\<lambda>m. if conversationId m = c_id conversation
                                                     \<and> currentUserObjectId \<notin> set (m_hiddenFor m)
                                                  then m\<lparr>m_hiddenFor :=
                                                         addToSet currentUserObjectId (m_hiddenFor m)\<rparr>
                                                  else m)
                                          (messages d1)\<rparr>
                             in (Inr (cid, ''me''), d2))
                          else
                            (Inr (cid, ''everyone''),
                             d\<lparr>messages :=
                                 filter (\<lambda>m. conversationId m \<noteq> c_id conversation) (messages d),
                               conversations :=
                                 deleteOne (\<lambda>c. c_id c = c_id conversation)
                                   (conversations d)\<rparr>)))))"

section \<open>server.js\<close>

text \<open>
  What a socket receives: a routed domain event with its payload, a presence update
  \<open>{userId, isOnline, lastSeen}\<close>, or a typing update \<open>{conversationId, fromUserId, isTyping}\<close>.
\<close>

datatype packet =
    Routed string payload
  | PresenceUpdate string bool int
  | TypingUpdate string string bool

text \<open>
  The state of the realtime server: the two module-level maps, the sockets that are
  connected with the rooms each has joined, the sockets whose handlers are registered
  (with the \<open>userId\<close> their closures hold), every \<open>io.to(room).emit\<close> made so far, every
  packet handed to a socket so far, and the database.
\<close>

record server =
  onlineCounts :: "string \<rightharpoonup> int"
  socketToUser :: "string \<rightharpoonup> string"
  connected :: "string list"
  listeners :: "string \<rightharpoonup> string"
  rooms :: "string \<Rightarrow> string set"
  emitted :: "(string \<times> packet) list"
  delivered :: "(string \<times> packet) list"
  store :: db

definition initial :: "db \<Rightarrow> server" where
  "initial d =
     \<lparr>onlineCounts = Map.empty, socketToUser = Map.empty, connected = [],
      listeners = Map.empty, rooms = (\<lambda>_. {}), emitted = [], delivered = [], store = d\<rparr>"

text \<open>\<^verbatim>\<open>io.to(room).emit(event, payload)\<close>: every connected socket in the room gets the packet.\<close>

definition io_to_emit :: "string \<Rightarrow> packet \<Rightarrow> server \<Rightarrow> server" where
  "io_to_emit room pkt st =
     st\<lparr>emitted := emitted st @ [(room, pkt)],
        delivered := delivered st
          @ map (\<lambda>s. (s, pkt)) (filter (\<lambda>s. room \<in> rooms st s) (connected st))\<rparr>"

text \<open>\<^verbatim>\<open>socket.emit(event, payload)\<close>.\<close>

definition socket_emit :: "string \<Rightarrow> packet \<Rightarrow> server \<Rightarrow> server" where
  "socket_emit sid pkt st = st\<lparr>delivered := delivered st @ [(sid, pkt)]\<rparr>"

definition socket_join :: "string \<Rightarrow> string \<Rightarrow> server \<Rightarrow> server" where
  "socket_join sid room st = st\<lparr>rooms := (rooms st)(sid := insert room (rooms st sid))\<rparr>"

definition socket_leave :: "string \<Rightarrow> string \<Rightarrow> server \<Rightarrow> server" where
  "socket_leave sid room st = st\<lparr>rooms := (rooms st)(sid := rooms st sid - {room})\<rparr>"

text \<open>\<^verbatim>\<open>x || d\<close> on a counter read from a map: an absent entry and \<open>0\<close> are falsy.\<close>

definition orElse :: "int option \<Rightarrow> int \<Rightarrow> int" where
  "orElse x d = (case x of None \<Rightarrow> d | Some n \<Rightarrow> if n = 0 then d else n)"

text \<open>A template literal prints an absent field as \<^verbatim>\<open>undefined\<close>.\<close>

definition tmpl :: "string option \<Rightarrow> string" where
  "tmpl x = (case x of None \<Rightarrow> ''undefined'' | Some s \<Rightarrow> s)"

definition canWatchPresence :: "string \<Rightarrow> string \<Rightarrow> db \<Rightarrow> bool" where
  "canWatchPresence watcherUserId targetUserId d =
     (if watcherUserId = [] \<or> targetUserId = [] then False
      else if watcherUserId = targetUserId then True
      else if \<not> isValid watcherUserId \<or> \<not> isValid targetUserId then False
      else list_ex
             (\<lambda>c. oidOf watcherUserId \<in> set (participants c)
                \<and> oidOf targetUserId \<in> set (participants c))
             (conversations d))"

definition emitPresenceUpdate :: "string \<Rightarrow> bool \<Rightarrow> int \<Rightarrow> server \<Rightarrow> server" where
  "emitPresenceUpdate targetUserId online seen st =
     io_to_emit (''user:'' @ targetUserId) (PresenceUpdate targetUserId online seen)
       (io_to_emit (''presence:watch:'' @ targetUserId)
          (PresenceUpdate targetUserId online seen) st)"

text \<open>
  The connection handler. \<open>userId\<close> is \<^verbatim>\<open>socket.data.userId\<close>. A handler returns the error
  that rejected it, if any, and the state it leaves; when the database update rejects,
  the rest of the handler, which registers the socket's listeners, does not run.
\<close>

definition connection :: "string \<Rightarrow> string option \<Rightarrow> int \<Rightarrow> server \<Rightarrow> failure option \<times> server" where
  "connection sid userId now st =
     (case userId of
        None \<Rightarrow> (None, st)
      | Some uid \<Rightarrow>
          if uid = [] then (None, st)
          else
            (let st0 = st\<lparr>connected := List.insert sid (connected st)\<rparr>;
                 st1 = socket_join sid (''user:'' @ uid)
                         (st0\<lparr>socketToUser := (socketToUser st0)(sid \<mapsto> uid)\<rparr>);
                 count = orElse (onlineCounts st1 uid) 0 + 1;
                 st2 = st1\<lparr>onlineCounts := (onlineCounts st1)(uid \<mapsto> count)\<rparr>
             in case User_findByIdAndUpdate uid (\<lambda>u. u\<lparr>isOnline := True, lastSeen := now\<rparr>)
                       (store st2) of
                  Inl e \<Rightarrow> (Some e, st2)
                | Inr d' \<Rightarrow>
                    (let st3 = st2\<lparr>store := d'\<rparr>;
                         st4 = (if count = 1 then emitPresenceUpdate uid True now st3 else st3)
                     in (None, st4\<lparr>listeners := (listeners st4)(sid \<mapsto> uid)\<rparr>))))"

definition presence_subscribe ::
  "string \<Rightarrow> string option \<Rightarrow> server \<Rightarrow> failure option \<times> server" where
  "presence_subscribe sid targetUserId st =
     (case listeners st sid of
        None \<Rightarrow> (None, st)
      | Some userId \<Rightarrow>
          (let normalizedTargetId = trim (orDefault targetUserId []) in
           if normalizedTargetId = [] then (None, st)
           else if \<not> canWatchPresence userId normalizedTargetId (store st) then (None, st)
           else
             (let st1 = socket_join sid (''presence:watch:'' @ normalizedTargetId) st in
              case User_findById normalizedTargetId (store st1) of
                Inl e \<Rightarrow> (Some e, st1)
              | Inr None \<Rightarrow> (None, st1)
              | Inr (Some targetUser) \<Rightarrow>
                  (None,
                   socket_emit sid
                     (PresenceUpdate normalizedTargetId
                        (isOnline targetUser
                           \<or> orElse (onlineCounts st1 normalizedTargetId) 0 > 0)
                        (lastSeen targetUser))
                     st1))))"

definition presence_unsubscribe :: "string \<Rightarrow> string option \<Rightarrow> server \<Rightarrow> server" where
  "presence_unsubscribe sid targetUserId st =
     (case listeners st sid of
        None \<Rightarrow> st
      | Some userId \<Rightarrow>
          (let normalizedTargetId = trim (orDefault targetUserId []) in
           if normalizedTargetId = [] then st
           else socket_leave sid (''presence:watch:'' @ normalizedTargetId) st))"

definition conversation_join :: "string \<Rightarrow> string option \<Rightarrow> server \<Rightarrow> server" where
  "conversation_join sid cid st =
     (case listeners st sid of
        None \<Rightarrow> st
      | Some userId \<Rightarrow>
          (case cid of
             None \<Rightarrow> st
           | Some c \<Rightarrow> if c = [] then st else socket_join sid (''conversation:'' @ c) st))"

definition typing_update ::
  "string \<Rightarrow> string option \<Rightarrow> string option \<Rightarrow> bool \<Rightarrow> server \<Rightarrow> server" where
  "typing_update sid cid toUserId typing st =
     (case listeners st sid of
        None \<Rightarrow> st
      | Some userId \<Rightarrow>
          (case (toUserId, cid) of
             (Some to, Some c) \<Rightarrow>
               if to = [] \<or> c = [] then st
               else io_to_emit (''user:'' @ to) (TypingUpdate c userId typing) st
           | _ \<Rightarrow> st))"

text \<open>
  The disconnect handler. The transport has taken the socket out of its rooms before the
  handler runs.
\<close>

definition disconnect :: "string \<Rightarrow> int \<Rightarrow> server \<Rightarrow> failure option \<times> server" where
  "disconnect sid now st =
     (let st0 = st\<lparr>connected := removeAll sid (connected st), rooms := (rooms st)(sid := {})\<rparr>
      in case listeners st sid of
           None \<Rightarrow> (None, st0)
         | Some userId \<Rightarrow>
             (let disconnectedUserId = socketToUser st0 sid;
                  st1 = st0\<lparr>socketToUser := (socketToUser st0)(sid := None),
                            listeners := (listeners st0)(sid := None)\<rparr>
              in case disconnectedUserId of
                   None \<Rightarrow> (None, st1)
                 | Some uid \<Rightarrow>
                     if uid = [] then (None, st1)
                     else
                       (let updatedCount = max (orElse (onlineCounts st1 uid) 1 - 1) 0 in
                        if updatedCount = 0
                        then
                          (let st2 = st1\<lparr>onlineCounts := (onlineCounts st1)(uid := None)\<rparr> in
                           case User_findByIdAndUpdate uid
                                  (\<lambda>u. u\<lparr>isOnline := False, lastSeen := now\<rparr>) (store st2) of
                             Inl e \<Rightarrow> (Some e, st2)
                           | Inr d' \<Rightarrow>
                               (None, emitPresenceUpdate uid False now (st2\<lparr>store := d'\<rparr>)))
                        else
                          (None,
                           st1\<lparr>onlineCounts := (onlineCounts st1)(uid \<mapsto> updatedCount)\<rparr>))))"

text \<open>
  \<^verbatim>\<open>POST /internal/realtime\<close>: \<open>expectedSecret\<close> is the configured secret, \<open>receivedSecret\<close>
  the request header, \<open>type\<close> and \<open>payload\<close> the two fields of the body. Reading a field of
  an absent payload throws.
\<close>

definition internal_realtime ::
  "string \<Rightarrow> string option \<Rightarrow> string option \<Rightarrow> payload option \<Rightarrow> server
     \<Rightarrow> (failure + unit) \<times> server" where
  "internal_realtime expectedSecret receivedSecret type body st =
     (if receivedSecret = None \<or> receivedSecret = Some [] \<or> receivedSecret \<noteq> Some expectedSecret
      then (Inl (Response 401 ''Unauthorized''), st)
      else
        (case body of
           None \<Rightarrow>
             if type = Some ''message:new'' \<or> type = Some ''message:read''
                \<or> type = Some ''message:deleted''
             then (Inl TypeError, st)
             else (Inr (), st)
         | Some p \<Rightarrow>
             (let st1 =
                    (if type = Some ''message:new''
                     then io_to_emit (''user:'' @ tmpl (p_senderId p)) (Routed ''message:new'' p)
                            (io_to_emit (''user:'' @ tmpl (p_recipientId p))
                               (Routed ''message:new'' p)
                               (io_to_emit (''conversation:'' @ tmpl (p_conversationId p))
                                  (Routed ''message:new'' p) st))
                     else st);
                  st2 =
                    (if type = Some ''message:read''
                     then io_to_emit (''conversation:'' @ tmpl (p_conversationId p))
                            (Routed ''message:read'' p) st1
                     else st1);
                  st3 =
                    (if type = Some ''message:deleted''
                     then
                       (if p_mode p = Some ''me''
                        then io_to_emit (''user:'' @ tmpl (p_targetUserId p))
                               (Routed ''message:deleted'' p) st2
                        else io_to_emit (''user:'' @ tmpl (p_senderId p))
                               (Routed ''message:deleted'' p)
                               (io_to_emit (''user:'' @ tmpl (p_recipientId p))
                                  (Routed ''message:deleted'' p)
                                  (io_to_emit (''conversation:'' @ tmpl (p_conversationId p))
                                     (Routed ''message:deleted'' p) st2)))
                     else st2)
              in (Inr (), st3))))"

text \<open>A run of the server: socket and router events, one after the other.\<close>

datatype action =
    Connection string "string option" int
  | Disconnect string int
  | PresenceSubscribe string "string option"
  | PresenceUnsubscribe string "string option"
  | ConversationJoin string "string option"
  | Typing string "string option" "string option" bool
  | Internal string "string option" "string option" "payload option"

fun step :: "action \<Rightarrow> server \<Rightarrow> server" where
  "step (Connection sid userId now) st = snd (connection sid userId now st)"
| "step (Disconnect sid now) st = snd (disconnect sid now st)"
| "step (PresenceSubscribe sid target) st = snd (presence_subscribe sid target st)"
| "step (PresenceUnsubscribe sid target) st = presence_unsubscribe sid target st"
| "step (ConversationJoin sid cid) st = conversation_join sid cid st"
| "step (Typing sid cid to typing) st = typing_update sid cid to typing st"
| "step (Internal expected received type body) st =
     snd (internal_realtime expected received type body st)"

fun run :: "action list \<Rightarrow> server \<Rightarrow> server" where
  "run [] st = st"
| "run (a # as) st = run as (step a st)"

section \<open>Concurrent first contact\<close>

text \<open>
  Several calls of \<open>getOrCreateConversation\<close> run concurrently: each has finished its lookup
  before any document was created, so each lookup returned nothing, and the calls then
  complete one after the other. Each call is \<open>(userA, userB, newId, now)\<close>; the result lists
  what each caller gets.
\<close>

fun first_contacts ::
  "(string \<times> string \<times> objectId \<times> int) list \<Rightarrow> db \<Rightarrow> (failure + conversation) list \<times> db" where
  "first_contacts [] d = ([], d)"
| "first_contacts ((userA, userB, newId, now) # calls) d =
     (case goc_complete userA userB newId now None d of
        Inl e \<Rightarrow> (Inl e # fst (first_contacts calls d), snd (first_contacts calls d))
      | Inr (c, d1) \<Rightarrow> (Inr c # fst (first_contacts calls d1), snd (first_contacts calls d1)))"

section \<open>Routing rules\<close>

text \<open>
  The routing rules as the specification words them: the groups a routed domain event is
  addressed to, in order. \<^verbatim>\<open>message:new\<close> goes to the conversation group and the inbox
  groups of recipient and sender, \<^verbatim>\<open>message:read\<close> to the conversation group,
  \<^verbatim>\<open>message:deleted\<close> to the acting user's inbox group when the mode is \<^verbatim>\<open>me\<close> and otherwise
  to the conversation group and both inbox groups.
\<close>

definition routing_groups :: "string \<Rightarrow> payload \<Rightarrow> string list" where
  "routing_groups type p =
     (if type = ''message:new''
      then [''conversation:'' @ tmpl (p_conversationId p),
            ''user:'' @ tmpl (p_recipientId p),
            ''user:'' @ tmpl (p_senderId p)]
      else if type = ''message:read''
      then [''conversation:'' @ tmpl (p_conversationId p)]
      else if type = ''message:deleted''
      then (if p_mode p = Some ''me''
            then [''user:'' @ tmpl (p_targetUserId p)]
            else [''conversation:'' @ tmpl (p_conversationId p),
                  ''user:'' @ tmpl (p_recipientId p),
                  ''user:'' @ tmpl (p_senderId p)])
      else [])"

text \<open>How many times a socket has been handed a given packet.\<close>

definition received :: "string \<Rightarrow> packet \<Rightarrow> server \<Rightarrow> nat" where
  "received sid pkt st = length (filter (\<lambda>x. x = (sid, pkt)) (delivered st))"

section \<open>Well-formed conversation documents\<close>

text \<open>
  Conversation documents are written by \<open>getOrCreateConversation\<close> only: the key of a
  document is two valid identifiers joined by a colon, and its participants are the
  ObjectIds of the two, in either order. \<open>store_wf\<close> says so of every stored conversation.
\<close>

definition key_parts :: "string \<Rightarrow> string \<times> string" where
  "key_parts key =
     (takeWhile (\<lambda>c. c \<noteq> CHR '':'') key, drop 1 (dropWhile (\<lambda>c. c \<noteq> CHR '':'') key))"

definition conv_wf :: "conversation \<Rightarrow> bool" where
  "conv_wf c =
     (case key_parts (participantKey c) of
        (x, y) \<Rightarrow> isValid x \<and> isValid y
          \<and> (participants c = [oidOf x, oidOf y] \<or> participants c = [oidOf y, oidOf x]))"

definition store_wf :: "db \<Rightarrow> bool" where
  "store_wf d = list_all conv_wf (conversations d)"

section \<open>Properties of the conversation resolver\<close>

lemma str_lt_asym: "str_lt a b \<Longrightarrow> \<not> str_lt b a"
  by (induction a b rule: str_lt.induct) (auto split: if_splits)

lemma str_lt_total: "\<not> str_lt a b \<Longrightarrow> \<not> str_lt b a \<Longrightarrow> a = b"
  by (induction a b rule: str_lt.induct) (auto split: if_splits)

lemma buildParticipantKey_commute: "buildParticipantKey a b = buildParticipantKey b a"
  using str_lt_asym [of a b] str_lt_total [of a b]
  by (auto simp: buildParticipantKey_def)

lemma find_snoc_new:
  "find P cs = None \<Longrightarrow> P c \<Longrightarrow> find P (cs @ [c]) = Some c"
  by (induction cs) (auto split: if_splits)

lemma find_None_list_ex: "find P cs = None \<Longrightarrow> \<not> list_ex P cs"
  by (induction cs) (auto split: if_splits)

lemma find_None_filter: "find P cs = None \<Longrightarrow> filter P cs = []"
  by (induction cs) (auto split: if_splits)

lemma find_Some_filter: "find P cs = Some c \<Longrightarrow> 1 \<le> length (filter P cs)"
  by (induction cs) (auto split: if_splits)

lemma find_Some_key: "find (\<lambda>c. participantKey c = k) cs = Some c \<Longrightarrow> participantKey c = k"
  by (induction cs) (auto split: if_splits)

lemma find_Some_member: "find P xs = Some x \<Longrightarrow> x \<in> set xs"
  by (induction xs) (auto split: if_splits)

lemma findOne_key: "Conversation_findOne k d = Some c \<Longrightarrow> participantKey c = k"
  unfolding Conversation_findOne_def by (rule find_Some_key)

text \<open>
  What the resolver returns, case by case. A conversation that is found is returned as it
  is and nothing is written: the document read from the store has no \<^verbatim>\<open>hiddenFor\<close> property.
\<close>

lemma goc_found:
  assumes "isValid A" and "Conversation_findOne (buildParticipantKey A B) d = Some c"
  shows "getOrCreateConversation A B newId now d = Inr (c, d)"
  using assms
  by (simp add: getOrCreateConversation_def goc_lookup_def goc_complete_def ObjectId_def
      conversation_hiddenFor_def orEmpty_def)

lemma goc_absent:
  assumes "isValid A" and "isValid B"
    and "Conversation_findOne (buildParticipantKey A B) d = None"
  shows "getOrCreateConversation A B newId now d =
           Inr (\<lparr>c_id = newId, participants = [oidOf A, oidOf B],
                  participantKey = buildParticipantKey A B, c_hiddenFor = [],
                  lastMessageText = [], lastMessageAt = now\<rparr>,
                d\<lparr>conversations := conversations d @
                     [\<lparr>c_id = newId, participants = [oidOf A, oidOf B],
                       participantKey = buildParticipantKey A B, c_hiddenFor = [],
                       lastMessageText = [], lastMessageAt = now\<rparr>]\<rparr>)"
  using assms
  by (simp add: getOrCreateConversation_def goc_lookup_def goc_complete_def ObjectId_def
      Conversation_create_def)

lemma findOne_after_create:
  assumes "Conversation_findOne k d = None" and "participantKey c = k"
  shows "Conversation_findOne k (d\<lparr>conversations := conversations d @ [c]\<rparr>) = Some c"
  using assms by (simp add: Conversation_findOne_def find_snoc_new)

text \<open>
  Claim C2. For valid user identifiers \<open>A\<close> and \<open>B\<close>, \<open>getOrCreateConversation A B\<close> followed by
  \<open>getOrCreateConversation B A\<close> resolves to the same conversation. Both calls succeed; the
  second returns the very document the first returned and writes nothing; the participant
  key does not depend on the order of the two identifiers; the document returned is the one
  stored under that key after each call. The first call returns the conversation the store
  already holds under the key and writes nothing, or, when there is none, creates the
  document with participants \<open>[A, B]\<close>, no hidden marks, an empty preview and the time of the
  call, and appends it to the store. Afterwards the store holds as many conversations under
  the key as before, and one when it held none.
\<close>

theorem getOrCreateConversation_order_independent:
  assumes "isValid A" and "isValid B"
  shows "\<exists>c1 d1 c2 d2.
           getOrCreateConversation A B id1 t1 d = Inr (c1, d1)
         \<and> getOrCreateConversation B A id2 t2 d1 = Inr (c2, d2)
         \<and> c2 = c1 \<and> d2 = d1
         \<and> buildParticipantKey A B = buildParticipantKey B A
         \<and> participantKey c1 = buildParticipantKey A B
         \<and> participantKey c2 = buildParticipantKey A B
         \<and> Conversation_findOne (buildParticipantKey A B) d1 = Some c1
         \<and> Conversation_findOne (buildParticipantKey B A) d2 = Some c2
         \<and> (case Conversation_findOne (buildParticipantKey A B) d of
               Some c0 \<Rightarrow> c1 = c0 \<and> d1 = d
             | None \<Rightarrow>
                 c1 = \<lparr>c_id = id1, participants = [oidOf A, oidOf B],
                        participantKey = buildParticipantKey A B, c_hiddenFor = [],
                        lastMessageText = [], lastMessageAt = t1\<rparr>
                 \<and> d1 = d\<lparr>conversations := conversations d @ [c1]\<rparr>)
         \<and> length (filter (\<lambda>c. participantKey c = buildParticipantKey A B) (conversations d2))
             = max 1 (length (filter (\<lambda>c. participantKey c = buildParticipantKey A B)
                                (conversations d)))"
proof -
  let ?k = "buildParticipantKey A B"
  let ?new = "\<lparr>c_id = id1, participants = [oidOf A, oidOf B],
               participantKey = ?k, c_hiddenFor = [],
               lastMessageText = [], lastMessageAt = t1\<rparr>"
  have k: "buildParticipantKey B A = ?k" by (rule buildParticipantKey_commute)
  show ?thesis
  proof (cases "Conversation_findOne ?k d")
    case None
    let ?d1 = "d\<lparr>conversations := conversations d @ [?new]\<rparr>"
    have first: "getOrCreateConversation A B id1 t1 d = Inr (?new, ?d1)"
      by (rule goc_absent [OF assms None])
    have stored: "Conversation_findOne ?k ?d1 = Some ?new"
      by (rule findOne_after_create [OF None]) simp
    have second: "getOrCreateConversation B A id2 t2 ?d1 = Inr (?new, ?d1)"
      by (rule goc_found [OF assms(2)]) (simp only: k stored)
    have "filter (\<lambda>c. participantKey c = ?k) (conversations d) = []"
      using None unfolding Conversation_findOne_def by (rule find_None_filter)
    then have count: "length (filter (\<lambda>c. participantKey c = ?k) (conversations ?d1))
        = max 1 (length (filter (\<lambda>c. participantKey c = ?k) (conversations d)))"
      by simp
    show ?thesis
      apply (rule exI [of _ ?new])
      apply (rule exI [of _ ?d1])
      apply (rule exI [of _ ?new])
      apply (rule exI [of _ ?d1])
      apply (simp only: first second stored count k None option.case)
      apply simp
      done
  next
    case (Some c0)
    have first: "getOrCreateConversation A B id1 t1 d = Inr (c0, d)"
      by (rule goc_found [OF assms(1) Some])
    have second: "getOrCreateConversation B A id2 t2 d = Inr (c0, d)"
      by (rule goc_found [OF assms(2)]) (simp only: k Some)
    have key: "participantKey c0 = ?k" by (rule findOne_key [OF Some])
    have "1 \<le> length (filter (\<lambda>c. participantKey c = ?k) (conversations d))"
      using Some unfolding Conversation_findOne_def by (rule find_Some_filter)
    then have count: "length (filter (\<lambda>c. participantKey c = ?k) (conversations d))
        = max 1 (length (filter (\<lambda>c. participantKey c = ?k) (conversations d)))"
      by simp
    show ?thesis
      apply (rule exI [of _ c0])
      apply (rule exI [of _ d])
      apply (rule exI [of _ c0])
      apply (rule exI [of _ d])
      apply (simp only: first second key k Some option.case)
      using count apply simp
      done
  qed
qed

theorem getOrCreateConversation_order_independent_witness:
  "isValid ''aaaaaaaaaaaaaaaaaaaaaaaa'' \<and> isValid ''0123456789abcdefABCDEF00''
   \<and> (\<exists>c1 d1 c2 d2.
           getOrCreateConversation ''aaaaaaaaaaaaaaaaaaaaaaaa'' ''0123456789abcdefABCDEF00''
             ''c00000000000000000000001'' 10 \<lparr>users = [], conversations = [], messages = []\<rparr>
             = Inr (c1, d1)
         \<and> getOrCreateConversation ''0123456789abcdefABCDEF00'' ''aaaaaaaaaaaaaaaaaaaaaaaa''
             ''c00000000000000000000002'' 20 d1 = Inr (c2, d2)
         \<and> c2 = c1 \<and> d2 = d1
         \<and> Conversation_findOne
              (buildParticipantKey ''aaaaaaaaaaaaaaaaaaaaaaaa'' ''0123456789abcdefABCDEF00'') d1
             = Some c1)"
proof -
  have a: "isValid ''aaaaaaaaaaaaaaaaaaaaaaaa''" by (simp add: isValid_def isHex_def)
  have b: "isValid ''0123456789abcdefABCDEF00''" by (simp add: isValid_def isHex_def)
  from getOrCreateConversation_order_independent [OF a b,
      of "''c00000000000000000000001''" 10 "\<lparr>users = [], conversations = [], messages = []\<rparr>"
        "''c00000000000000000000002''" 20]
  obtain c1 d1 c2 d2 where
    "getOrCreateConversation ''aaaaaaaaaaaaaaaaaaaaaaaa'' ''0123456789abcdefABCDEF00''
       ''c00000000000000000000001'' 10 \<lparr>users = [], conversations = [], messages = []\<rparr>
       = Inr (c1, d1)"
    "getOrCreateConversation ''0123456789abcdefABCDEF00'' ''aaaaaaaaaaaaaaaaaaaaaaaa''
       ''c00000000000000000000002'' 20 d1 = Inr (c2, d2)"
    "c2 = c1" "d2 = d1"
    "Conversation_findOne
       (buildParticipantKey ''aaaaaaaaaaaaaaaaaaaaaaaa'' ''0123456789abcdefABCDEF00'') d1
      = Some c1"
    by blast
  with a b show ?thesis by blast
qed

section \<open>Concurrent creation\<close>

lemma goc_complete_creates:
  assumes "isValid a" and "isValid b"
  shows "goc_complete a b newId now None d =
           Inr (\<lparr>c_id = newId, participants = [oidOf a, oidOf b],
                 participantKey = buildParticipantKey a b, c_hiddenFor = [],
                 lastMessageText = [], lastMessageAt = now\<rparr>,
                d\<lparr>conversations := conversations d @
                   [\<lparr>c_id = newId, participants = [oidOf a, oidOf b],
                     participantKey = buildParticipantKey a b, c_hiddenFor = [],
                     lastMessageText = [], lastMessageAt = now\<rparr>]\<rparr>)"
  using assms by (simp add: goc_complete_def ObjectId_def Conversation_create_def)

text \<open>Concurrent first contacts never fail, and each of them adds a document.\<close>

lemma first_contacts_each_creates:
  assumes "\<forall>call \<in> set calls. isValid (fst call) \<and> isValid (fst (snd call))"
  shows "length (conversations (snd (first_contacts calls d)))
           = length (conversations d) + length calls
       \<and> list_all (\<lambda>r. \<exists>c. r = Inr c) (fst (first_contacts calls d))"
  using assms
proof (induction calls arbitrary: d)
  case Nil
  then show ?case by simp
next
  case (Cons call calls)
  obtain a b i t where call: "call = (a, b, i, t)" by (cases call) auto
  from Cons.prems call have ab: "isValid a" "isValid b" by auto
  from Cons.prems have rest: "\<forall>call \<in> set calls. isValid (fst call) \<and> isValid (fst (snd call))"
    by simp
  show ?case
    using Cons.IH [OF rest] by (simp add: call goc_complete_creates [OF ab])
qed

text \<open>
  Claim C3, evaluated on the code. Two users contact each other for the first time at the
  same moment: both calls look the pair up in a store with no conversation, both find
  nothing, and both then create. No index rejects the second create, so neither call
  fails, each caller is handed a conversation of its own, and the store ends with two
  conversations under the one participant key.
\<close>

theorem concurrent_first_contact_two_conversations:
  "goc_lookup ''aaaaaaaaaaaaaaaaaaaaaaaa'' ''bbbbbbbbbbbbbbbbbbbbbbbb''
     \<lparr>users = [], conversations = [], messages = []\<rparr> = Inr None
   \<and> goc_lookup ''bbbbbbbbbbbbbbbbbbbbbbbb'' ''aaaaaaaaaaaaaaaaaaaaaaaa''
     \<lparr>users = [], conversations = [], messages = []\<rparr> = Inr None
   \<and> first_contacts
        [(''aaaaaaaaaaaaaaaaaaaaaaaa'', ''bbbbbbbbbbbbbbbbbbbbbbbb'',
          ''c00000000000000000000001'', 10),
         (''bbbbbbbbbbbbbbbbbbbbbbbb'', ''aaaaaaaaaaaaaaaaaaaaaaaa'',
          ''c00000000000000000000002'', 20)]
        \<lparr>users = [], conversations = [], messages = []\<rparr>
      = ([Inr \<lparr>c_id = ''c00000000000000000000001'',
               participants = [''aaaaaaaaaaaaaaaaaaaaaaaa'', ''bbbbbbbbbbbbbbbbbbbbbbbb''],
               participantKey = ''aaaaaaaaaaaaaaaaaaaaaaaa:bbbbbbbbbbbbbbbbbbbbbbbb'',
               c_hiddenFor = [], lastMessageText = [], lastMessageAt = 10\<rparr>,
          Inr \<lparr>c_id = ''c00000000000000000000002'',
               participants = [''bbbbbbbbbbbbbbbbbbbbbbbb'', ''aaaaaaaaaaaaaaaaaaaaaaaa''],
               participantKey = ''aaaaaaaaaaaaaaaaaaaaaaaa:bbbbbbbbbbbbbbbbbbbbbbbb'',
               c_hiddenFor = [], lastMessageText = [], lastMessageAt = 20\<rparr>],
         \<lparr>users = [],
          conversations =
            [\<lparr>c_id = ''c00000000000000000000001'',
              participants = [''aaaaaaaaaaaaaaaaaaaaaaaa'', ''bbbbbbbbbbbbbbbbbbbbbbbb''],
              participantKey = ''aaaaaaaaaaaaaaaaaaaaaaaa:bbbbbbbbbbbbbbbbbbbbbbbb'',
              c_hiddenFor = [], lastMessageText = [], lastMessageAt = 10\<rparr>,
             \<lparr>c_id = ''c00000000000000000000002'',
              participants = [''bbbbbbbbbbbbbbbbbbbbbbbb'', ''aaaaaaaaaaaaaaaaaaaaaaaa''],
              participantKey = ''aaaaaaaaaaaaaaaaaaaaaaaa:bbbbbbbbbbbbbbbbbbbbbbbb'',
              c_hiddenFor = [], lastMessageText = [], lastMessageAt = 20\<rparr>],
          messages = []\<rparr>)
   \<and> length (filter (\<lambda>c. participantKey c = ''aaaaaaaaaaaaaaaaaaaaaaaa:bbbbbbbbbbbbbbbbbbbbbbbb'')
        (conversations (snd (first_contacts
           [(''aaaaaaaaaaaaaaaaaaaaaaaa'', ''bbbbbbbbbbbbbbbbbbbbbbbb'',
             ''c00000000000000000000001'', 10),
            (''bbbbbbbbbbbbbbbbbbbbbbbb'', ''aaaaaaaaaaaaaaaaaaaaaaaa'',
             ''c00000000000000000000002'', 20)]
           \<lparr>users = [], conversations = [], messages = []\<rparr>)))) = 2"
  by (simp add: goc_lookup_def goc_complete_def ObjectId_def isValid_def isHex_def oidOf_def
      hexLower_def Conversation_findOne_def Conversation_create_def buildParticipantKey_def)

section \<open>Presence authorization\<close>

lemma isValid_nonempty: "isValid s \<Longrightarrow> s \<noteq> []"
  by (auto simp: isValid_def)

lemma two_participants_exact:
  assumes "length ps = 2" and "x \<noteq> y"
  shows "(x \<in> set ps \<and> y \<in> set ps) = (set ps = {x, y})"
proof -
  from assms(1) obtain p q where "ps = [p, q]"
    by (cases ps; cases "tl ps") auto
  with assms(2) show ?thesis by auto
qed

text \<open>
  Claim C8, as the code has it. \<open>canWatchPresence\<close> is called by the
  \<^verbatim>\<open>presence:subscribe\<close> handler only, with the user of the socket and the target of the
  request, after both were found non-empty. For two non-empty identifiers it returns true
  when the two are the same string; false when they differ and either is not a valid
  ObjectId string; otherwise it is true iff some conversation has both ObjectIds among
  its participants. For conversations of two participants and two identifiers that denote
  different ObjectIds, that is a conversation whose participant set is exactly the two. For
  two different spellings of one ObjectId it is true iff the watcher takes part in some
  conversation.
\<close>

theorem canWatchPresence_decides:
  assumes "w \<noteq> []" and "t \<noteq> []"
  shows "(w = t \<longrightarrow> canWatchPresence w t d)
   \<and> (w \<noteq> t \<and> (\<not> isValid w \<or> \<not> isValid t) \<longrightarrow> \<not> canWatchPresence w t d)
   \<and> (w \<noteq> t \<and> isValid w \<and> isValid t
        \<longrightarrow> canWatchPresence w t d
            = (\<exists>c \<in> set (conversations d).
                 oidOf w \<in> set (participants c) \<and> oidOf t \<in> set (participants c)))
   \<and> (isValid w \<and> isValid t \<and> oidOf w \<noteq> oidOf t
        \<and> (\<forall>c \<in> set (conversations d). length (participants c) = 2)
        \<longrightarrow> canWatchPresence w t d
            = (\<exists>c \<in> set (conversations d). set (participants c) = {oidOf w, oidOf t}))
   \<and> (w \<noteq> t \<and> isValid w \<and> isValid t \<and> oidOf w = oidOf t
        \<longrightarrow> canWatchPresence w t d
            = (\<exists>c \<in> set (conversations d). oidOf w \<in> set (participants c)))"
proof (intro conjI impI)
  assume "w = t"
  with assms show "canWatchPresence w t d" by (simp add: canWatchPresence_def)
next
  assume "w \<noteq> t \<and> (\<not> isValid w \<or> \<not> isValid t)"
  with assms show "\<not> canWatchPresence w t d" by (auto simp: canWatchPresence_def)
next
  assume "w \<noteq> t \<and> isValid w \<and> isValid t"
  with assms show "canWatchPresence w t d
      = (\<exists>c \<in> set (conversations d).
           oidOf w \<in> set (participants c) \<and> oidOf t \<in> set (participants c))"
    by (simp add: canWatchPresence_def list_ex_iff)
next
  assume h: "isValid w \<and> isValid t \<and> oidOf w \<noteq> oidOf t
      \<and> (\<forall>c \<in> set (conversations d). length (participants c) = 2)"
  then have ne: "w \<noteq> t" by auto
  from h assms ne have "canWatchPresence w t d
      = (\<exists>c \<in> set (conversations d).
           oidOf w \<in> set (participants c) \<and> oidOf t \<in> set (participants c))"
    by (simp add: canWatchPresence_def list_ex_iff)
  also have "\<dots> = (\<exists>c \<in> set (conversations d). set (participants c) = {oidOf w, oidOf t})"
    using h two_participants_exact [of _ "oidOf w" "oidOf t"] by blast
  finally show "canWatchPresence w t d
      = (\<exists>c \<in> set (conversations d). set (participants c) = {oidOf w, oidOf t})" .
next
  assume "w \<noteq> t \<and> isValid w \<and> isValid t \<and> oidOf w = oidOf t"
  with assms show "canWatchPresence w t d
      = (\<exists>c \<in> set (conversations d). oidOf w \<in> set (participants c))"
    by (simp add: canWatchPresence_def list_ex_iff)
qed

theorem canWatchPresence_decides_witness:
  "''aaaaaaaaaaaaaaaaaaaaaaaa'' \<noteq> [] \<and> ''bbbbbbbbbbbbbbbbbbbbbbbb'' \<noteq> [] \<and> ''guest'' \<noteq> []
   \<and> isValid ''aaaaaaaaaaaaaaaaaaaaaaaa'' \<and> isValid ''bbbbbbbbbbbbbbbbbbbbbbbb''
   \<and> oidOf ''aaaaaaaaaaaaaaaaaaaaaaaa'' \<noteq> oidOf ''bbbbbbbbbbbbbbbbbbbbbbbb''
   \<and> canWatchPresence ''aaaaaaaaaaaaaaaaaaaaaaaa'' ''bbbbbbbbbbbbbbbbbbbbbbbb''
        \<lparr>users = [],
         conversations =
           [\<lparr>c_id = ''c00000000000000000000001'',
             participants = [''aaaaaaaaaaaaaaaaaaaaaaaa'', ''bbbbbbbbbbbbbbbbbbbbbbbb''],
             participantKey = ''aaaaaaaaaaaaaaaaaaaaaaaa:bbbbbbbbbbbbbbbbbbbbbbbb'',
             c_hiddenFor = [], lastMessageText = [], lastMessageAt = 10\<rparr>],
         messages = []\<rparr>
   \<and> \<not> canWatchPresence ''aaaaaaaaaaaaaaaaaaaaaaaa'' ''bbbbbbbbbbbbbbbbbbbbbbbb''
        \<lparr>users = [], conversations = [], messages = []\<rparr>
   \<and> canWatchPresence ''guest'' ''guest'' \<lparr>users = [], conversations = [], messages = []\<rparr>
   \<and> \<not> canWatchPresence ''guest'' ''aaaaaaaaaaaaaaaaaaaaaaaa''
        \<lparr>users = [], conversations = [], messages = []\<rparr>
   \<and> isValid ''AAAAAAAAAAAAAAAAAAAAAAAA''
   \<and> oidOf ''aaaaaaaaaaaaaaaaaaaaaaaa'' = oidOf ''AAAAAAAAAAAAAAAAAAAAAAAA''
   \<and> canWatchPresence ''aaaaaaaaaaaaaaaaaaaaaaaa'' ''AAAAAAAAAAAAAAAAAAAAAAAA''
        \<lparr>users = [],
         conversations =
           [\<lparr>c_id = ''c00000000000000000000001'',
             participants = [''aaaaaaaaaaaaaaaaaaaaaaaa'', ''bbbbbbbbbbbbbbbbbbbbbbbb''],
             participantKey = ''aaaaaaaaaaaaaaaaaaaaaaaa:bbbbbbbbbbbbbbbbbbbbbbbb'',
             c_hiddenFor = [], lastMessageText = [], lastMessageAt = 10\<rparr>],
         messages = []\<rparr>"
proof -
  have a: "isValid ''aaaaaaaaaaaaaaaaaaaaaaaa''" by (simp add: isValid_def isHex_def)
  have b: "isValid ''bbbbbbbbbbbbbbbbbbbbbbbb''" by (simp add: isValid_def isHex_def)
  have upper: "isValid ''AAAAAAAAAAAAAAAAAAAAAAAA''" by (simp add: isValid_def isHex_def)
  have same: "oidOf ''aaaaaaaaaaaaaaaaaaaaaaaa'' = oidOf ''AAAAAAAAAAAAAAAAAAAAAAAA''"
    by (simp add: oidOf_def hexLower_def)
  have ab: "oidOf ''aaaaaaaaaaaaaaaaaaaaaaaa'' \<noteq> oidOf ''bbbbbbbbbbbbbbbbbbbbbbbb''"
    by (simp add: oidOf_def hexLower_def)
  have g: "\<not> isValid ''guest''" by (simp add: isValid_def)
  have oa: "oidOf ''aaaaaaaaaaaaaaaaaaaaaaaa'' = ''aaaaaaaaaaaaaaaaaaaaaaaa''"
    and ob: "oidOf ''bbbbbbbbbbbbbbbbbbbbbbbb'' = ''bbbbbbbbbbbbbbbbbbbbbbbb''"
    by (simp_all add: oidOf_def hexLower_def)
  have 1: "canWatchPresence ''aaaaaaaaaaaaaaaaaaaaaaaa'' ''bbbbbbbbbbbbbbbbbbbbbbbb''
        \<lparr>users = [],
         conversations =
           [\<lparr>c_id = ''c00000000000000000000001'',
             participants = [''aaaaaaaaaaaaaaaaaaaaaaaa'', ''bbbbbbbbbbbbbbbbbbbbbbbb''],
             participantKey = ''aaaaaaaaaaaaaaaaaaaaaaaa:bbbbbbbbbbbbbbbbbbbbbbbb'',
             c_hiddenFor = [], lastMessageText = [], lastMessageAt = 10\<rparr>],
         messages = []\<rparr>"
    using canWatchPresence_decides [of "''aaaaaaaaaaaaaaaaaaaaaaaa''" "''bbbbbbbbbbbbbbbbbbbbbbbb''"
        "\<lparr>users = [],
         conversations =
           [\<lparr>c_id = ''c00000000000000000000001'',
             participants = [''aaaaaaaaaaaaaaaaaaaaaaaa'', ''bbbbbbbbbbbbbbbbbbbbbbbb''],
             participantKey = ''aaaaaaaaaaaaaaaaaaaaaaaa:bbbbbbbbbbbbbbbbbbbbbbbb'',
             c_hiddenFor = [], lastMessageText = [], lastMessageAt = 10\<rparr>],
         messages = []\<rparr>"] a b ab
    by (simp add: oa ob insert_commute)
  have 2: "\<not> canWatchPresence ''aaaaaaaaaaaaaaaaaaaaaaaa'' ''bbbbbbbbbbbbbbbbbbbbbbbb''
        \<lparr>users = [], conversations = [], messages = []\<rparr>"
    using canWatchPresence_decides [of "''aaaaaaaaaaaaaaaaaaaaaaaa''" "''bbbbbbbbbbbbbbbbbbbbbbbb''"
        "\<lparr>users = [], conversations = [], messages = []\<rparr>"] a b ab
    by simp
  have 3: "canWatchPresence ''guest'' ''guest'' \<lparr>users = [], conversations = [], messages = []\<rparr>"
    using canWatchPresence_decides [of "''guest''" "''guest''"
        "\<lparr>users = [], conversations = [], messages = []\<rparr>"]
    by simp
  have 4: "\<not> canWatchPresence ''guest'' ''aaaaaaaaaaaaaaaaaaaaaaaa''
        \<lparr>users = [], conversations = [], messages = []\<rparr>"
    using canWatchPresence_decides [of "''guest''" "''aaaaaaaaaaaaaaaaaaaaaaaa''"
        "\<lparr>users = [], conversations = [], messages = []\<rparr>"] g
    by simp
  have 5: "canWatchPresence ''aaaaaaaaaaaaaaaaaaaaaaaa'' ''AAAAAAAAAAAAAAAAAAAAAAAA''
        \<lparr>users = [],
         conversations =
           [\<lparr>c_id = ''c00000000000000000000001'',
             participants = [''aaaaaaaaaaaaaaaaaaaaaaaa'', ''bbbbbbbbbbbbbbbbbbbbbbbb''],
             participantKey = ''aaaaaaaaaaaaaaaaaaaaaaaa:bbbbbbbbbbbbbbbbbbbbbbbb'',
             c_hiddenFor = [], lastMessageText = [], lastMessageAt = 10\<rparr>],
         messages = []\<rparr>"
    using canWatchPresence_decides [of "''aaaaaaaaaaaaaaaaaaaaaaaa''" "''AAAAAAAAAAAAAAAAAAAAAAAA''"
        "\<lparr>users = [],
         conversations =
           [\<lparr>c_id = ''c00000000000000000000001'',
             participants = [''aaaaaaaaaaaaaaaaaaaaaaaa'', ''bbbbbbbbbbbbbbbbbbbbbbbb''],
             participantKey = ''aaaaaaaaaaaaaaaaaaaaaaaa:bbbbbbbbbbbbbbbbbbbbbbbb'',
             c_hiddenFor = [], lastMessageText = [], lastMessageAt = 10\<rparr>],
         messages = []\<rparr>"] a upper same
    by (simp add: oa)
  from a b ab 1 2 3 4 5 upper same show ?thesis by simp
qed

text \<open>
  The claim as stated fails at two different valid strings that denote the same ObjectId
  (hexadecimal digits in another case): a user who asks for the presence of its own
  identifier in upper case. The two identifiers are not equal and both are valid; the store
  holds one conversation, between that user and another; \<open>canWatchPresence\<close> answers true,
  though the participant set of that conversation is not the set of the two identifiers'
  ObjectIds.
\<close>

theorem canWatchPresence_case_variant_counterexample:
  "''aaaaaaaaaaaaaaaaaaaaaaaa'' \<noteq> ''AAAAAAAAAAAAAAAAAAAAAAAA''
   \<and> isValid ''aaaaaaaaaaaaaaaaaaaaaaaa'' \<and> isValid ''AAAAAAAAAAAAAAAAAAAAAAAA''
   \<and> canWatchPresence ''aaaaaaaaaaaaaaaaaaaaaaaa'' ''AAAAAAAAAAAAAAAAAAAAAAAA''
       \<lparr>users = [],
        conversations =
          [\<lparr>c_id = ''c00000000000000000000001'',
            participants = [''aaaaaaaaaaaaaaaaaaaaaaaa'', ''bbbbbbbbbbbbbbbbbbbbbbbb''],
            participantKey = ''aaaaaaaaaaaaaaaaaaaaaaaa:bbbbbbbbbbbbbbbbbbbbbbbb'',
            c_hiddenFor = [], lastMessageText = [], lastMessageAt = 10\<rparr>],
        messages = []\<rparr>
   \<and> oidOf ''aaaaaaaaaaaaaaaaaaaaaaaa'' = oidOf ''AAAAAAAAAAAAAAAAAAAAAAAA''
   \<and> set [''aaaaaaaaaaaaaaaaaaaaaaaa'', ''bbbbbbbbbbbbbbbbbbbbbbbb'']
       \<noteq> {oidOf ''aaaaaaaaaaaaaaaaaaaaaaaa'', oidOf ''AAAAAAAAAAAAAAAAAAAAAAAA''}"
  by (simp add: canWatchPresence_def isValid_def isHex_def oidOf_def hexLower_def)

section \<open>Session registry\<close>

lemma find_map_update:
  assumes "\<And>u. u_id (upd u) = u_id u"
  shows "find (\<lambda>u. u_id u = i) (map (\<lambda>u. if u_id u = i then upd u else u) us)
         = map_option upd (find (\<lambda>u. u_id u = i) us)"
  using assms by (induction us) auto

lemma findById_after_update:
  assumes "User_findById U d = Inr (Some u)" and "\<And>u. u_id (upd u) = u_id u"
  shows "\<exists>d'. User_findByIdAndUpdate U upd d = Inr d' \<and> User_findById U d' = Inr (Some (upd u))
           \<and> conversations d' = conversations d \<and> messages d' = messages d"
  using assms(1) find_map_update [of upd "oidOf U" "users d", OF assms(2)]
  by (auto simp: User_findById_def User_findByIdAndUpdate_def split: if_splits)

lemma emitted_emitPresenceUpdate:
  "emitted (emitPresenceUpdate U online seen st)
   = emitted st @ [(''presence:watch:'' @ U, PresenceUpdate U online seen),
                   (''user:'' @ U, PresenceUpdate U online seen)]"
  by (simp add: emitPresenceUpdate_def io_to_emit_def)

lemma emitPresenceUpdate_frame:
  "onlineCounts (emitPresenceUpdate U online seen st) = onlineCounts st"
  "socketToUser (emitPresenceUpdate U online seen st) = socketToUser st"
  "listeners (emitPresenceUpdate U online seen st) = listeners st"
  "store (emitPresenceUpdate U online seen st) = store st"
  by (simp_all add: emitPresenceUpdate_def io_to_emit_def)

text \<open>The connection handler for a user that the database knows.\<close>

lemma connection_known_user:
  assumes "User_findById U (store st) = Inr (Some u)"
  shows "\<exists>st'. connection sid (Some U) now st = (None, st')
           \<and> onlineCounts st' = (onlineCounts st)(U \<mapsto> orElse (onlineCounts st U) 0 + 1)
           \<and> socketToUser st' = (socketToUser st)(sid \<mapsto> U)
           \<and> listeners st' = (listeners st)(sid \<mapsto> U)
           \<and> User_findById U (store st') = Inr (Some (u\<lparr>isOnline := True, lastSeen := now\<rparr>))
           \<and> emitted st'
               = emitted st @ (if orElse (onlineCounts st U) 0 + 1 = 1
                               then [(''presence:watch:'' @ U, PresenceUpdate U True now),
                                     (''user:'' @ U, PresenceUpdate U True now)]
                               else [])"
proof -
  from assms have valid: "isValid U" by (auto simp: User_findById_def split: if_splits)
  then have ne: "U \<noteq> []" by (auto simp: isValid_def)
  from findById_after_update [OF assms, of "\<lambda>u. u\<lparr>isOnline := True, lastSeen := now\<rparr>"]
  obtain d' where upd: "User_findByIdAndUpdate U (\<lambda>u. u\<lparr>isOnline := True, lastSeen := now\<rparr>)
       (store st) = Inr d'"
    and found: "User_findById U d' = Inr (Some (u\<lparr>isOnline := True, lastSeen := now\<rparr>))"
    by auto
  show ?thesis
    using ne upd found
    by (simp add: connection_def Let_def socket_join_def emitted_emitPresenceUpdate
        emitPresenceUpdate_frame)
qed

text \<open>The disconnect handler for a registered socket of a user that the database knows.\<close>

lemma disconnect_not_last:
  assumes "listeners st sid = Some U'" and "socketToUser st sid = Some U" and "U \<noteq> []"
    and "onlineCounts st U = Some n" and "2 \<le> n"
  shows "\<exists>st'. disconnect sid now st = (None, st')
           \<and> onlineCounts st' = (onlineCounts st)(U \<mapsto> n - 1)
           \<and> socketToUser st' = (socketToUser st)(sid := None)
           \<and> listeners st' = (listeners st)(sid := None)
           \<and> store st' = store st
           \<and> emitted st' = emitted st"
  using assms by (simp add: disconnect_def Let_def orElse_def)

lemma disconnect_last:
  assumes "listeners st sid = Some U'" and "socketToUser st sid = Some U"
    and "onlineCounts st U = Some 1"
    and "User_findById U (store st) = Inr (Some u)"
  shows "\<exists>st'. disconnect sid now st = (None, st')
           \<and> onlineCounts st' = (onlineCounts st)(U := None)
           \<and> User_findById U (store st') = Inr (Some (u\<lparr>isOnline := False, lastSeen := now\<rparr>))
           \<and> emitted st'
               = emitted st @ [(''presence:watch:'' @ U, PresenceUpdate U False now),
                               (''user:'' @ U, PresenceUpdate U False now)]"
proof -
  from assms(4) have valid: "isValid U" by (auto simp: User_findById_def split: if_splits)
  then have ne: "U \<noteq> []" by (auto simp: isValid_def)
  from findById_after_update [OF assms(4), of "\<lambda>u. u\<lparr>isOnline := False, lastSeen := now\<rparr>"]
  obtain d' where upd: "User_findByIdAndUpdate U (\<lambda>u. u\<lparr>isOnline := False, lastSeen := now\<rparr>)
       (store st) = Inr d'"
    and found: "User_findById U d' = Inr (Some (u\<lparr>isOnline := False, lastSeen := now\<rparr>))"
    by auto
  show ?thesis
    using assms(1,2,3) ne upd found
    by (simp add: disconnect_def Let_def orElse_def emitted_emitPresenceUpdate
        emitPresenceUpdate_frame)
qed

text \<open>No handler stores a counter below one.\<close>

lemma step_counts_positive:
  assumes "\<forall>u n. onlineCounts st u = Some n \<longrightarrow> 1 \<le> n"
  shows "\<forall>u n. onlineCounts (step a st) u = Some n \<longrightarrow> 1 \<le> n"
proof -
  from assms have pos: "\<And>u n. onlineCounts st u = Some n \<Longrightarrow> 1 \<le> n" by blast
  show ?thesis
  proof (cases a)
  case (Connection sid userId now)
  then show ?thesis
    by (auto dest: pos simp: connection_def Let_def socket_join_def emitPresenceUpdate_frame orElse_def
        split: option.splits sum.splits if_splits)
next
  case (Disconnect sid now)
  then show ?thesis
    by (auto dest: pos simp: disconnect_def Let_def emitPresenceUpdate_frame orElse_def
        split: option.splits sum.splits if_splits)
next
  case (PresenceSubscribe sid target)
  then show ?thesis
    by (auto dest: pos simp: presence_subscribe_def Let_def socket_join_def socket_emit_def
        split: option.splits sum.splits if_splits)
next
  case (PresenceUnsubscribe sid target)
  then show ?thesis
    by (auto dest: pos simp: presence_unsubscribe_def Let_def socket_leave_def
        split: option.splits if_splits)
next
  case (ConversationJoin sid cid)
  then show ?thesis
    by (auto dest: pos simp: conversation_join_def socket_join_def split: option.splits if_splits)
next
  case (Typing sid cid to typing)
  then show ?thesis
    by (auto dest: pos simp: typing_update_def io_to_emit_def split: option.splits if_splits)
next
  case (Internal expected received type body)
  then show ?thesis
    by (auto dest: pos simp: internal_realtime_def Let_def io_to_emit_def split: option.splits if_splits)
qed
qed

lemma run_counts_positive:
  "\<forall>u n. onlineCounts st u = Some n \<longrightarrow> 1 \<le> n
   \<Longrightarrow> \<forall>u n. onlineCounts (run acts st) u = Some n \<longrightarrow> 1 \<le> n"
proof (induction acts arbitrary: st)
  case Nil
  then show ?case by simp
next
  case (Cons a acts)
  from Cons.IH [OF step_counts_positive [OF Cons.prems]] show ?case by simp
qed

text \<open>
  Claim C7. A user known to the database, with no open session, registers two sessions.
  Closing the first leaves the persisted \<open>isOnline\<close> flag true, emits nothing and leaves the
  counter at one. Closing the second persists \<open>isOnline = False\<close> with \<open>lastSeen\<close> the time of
  the close, emits the one offline presence event (to the presence-watch group and to the
  user's inbox group) and removes the counter. In every run of the server from its initial
  state no stored counter is negative.
\<close>

theorem two_sessions_presence:
  assumes "User_findById U (store st0) = Inr (Some u0)"
    and "onlineCounts st0 U = None"
    and "s1 \<noteq> s2"
  shows "(\<exists>st1 st2 st3 st4 u3 u4.
            connection s1 (Some U) t1 st0 = (None, st1)
          \<and> connection s2 (Some U) t2 st1 = (None, st2)
          \<and> onlineCounts st2 U = Some 2
          \<and> disconnect s1 t3 st2 = (None, st3)
          \<and> User_findById U (store st3) = Inr (Some u3) \<and> isOnline u3
          \<and> emitted st3 = emitted st2
          \<and> onlineCounts st3 U = Some 1
          \<and> disconnect s2 t4 st3 = (None, st4)
          \<and> User_findById U (store st4) = Inr (Some u4)
          \<and> \<not> isOnline u4 \<and> lastSeen u4 = t4
          \<and> emitted st4
              = emitted st3 @ [(''presence:watch:'' @ U, PresenceUpdate U False t4),
                               (''user:'' @ U, PresenceUpdate U False t4)]
          \<and> onlineCounts st4 U = None)
       \<and> (\<forall>acts d v n. onlineCounts (run acts (initial d)) v = Some n \<longrightarrow> 0 \<le> n)"
proof
  from assms(1) have ne: "U \<noteq> []"
    by (auto simp: User_findById_def isValid_def split: if_splits)
  from connection_known_user [OF assms(1), of s1 t1]
  obtain st1 where c1: "connection s1 (Some U) t1 st0 = (None, st1)"
    and n1: "onlineCounts st1 = (onlineCounts st0)(U \<mapsto> orElse (onlineCounts st0 U) 0 + 1)"
    and s1: "socketToUser st1 = (socketToUser st0)(s1 \<mapsto> U)"
    and l1: "listeners st1 = (listeners st0)(s1 \<mapsto> U)"
    and f1: "User_findById U (store st1) = Inr (Some (u0\<lparr>isOnline := True, lastSeen := t1\<rparr>))"
    by blast
  from connection_known_user [OF f1, of s2 t2]
  obtain st2 where c2: "connection s2 (Some U) t2 st1 = (None, st2)"
    and n2: "onlineCounts st2 = (onlineCounts st1)(U \<mapsto> orElse (onlineCounts st1 U) 0 + 1)"
    and s2: "socketToUser st2 = (socketToUser st1)(s2 \<mapsto> U)"
    and l2: "listeners st2 = (listeners st1)(s2 \<mapsto> U)"
    and f2: "User_findById U (store st2)
             = Inr (Some (u0\<lparr>isOnline := True, lastSeen := t1\<rparr>\<lparr>isOnline := True, lastSeen := t2\<rparr>))"
    by blast
  have count2: "onlineCounts st2 U = Some 2"
    by (simp add: n2 n1 assms(2) orElse_def)
  have reg1: "listeners st2 s1 = Some U" "socketToUser st2 s1 = Some U"
    using assms(3) by (simp_all add: l2 l1 s2 s1)
  from disconnect_not_last [OF reg1 ne count2, of t3]
  obtain st3 where d3: "disconnect s1 t3 st2 = (None, st3)"
    and n3: "onlineCounts st3 = (onlineCounts st2)(U \<mapsto> 2 - 1)"
    and s3: "socketToUser st3 = (socketToUser st2)(s1 := None)"
    and l3: "listeners st3 = (listeners st2)(s1 := None)"
    and db3: "store st3 = store st2"
    and e3: "emitted st3 = emitted st2"
    by auto
  have count3: "onlineCounts st3 U = Some 1" by (simp add: n3)
  have f3: "User_findById U (store st3)
            = Inr (Some (u0\<lparr>isOnline := True, lastSeen := t1\<rparr>\<lparr>isOnline := True, lastSeen := t2\<rparr>))"
    by (simp add: db3 f2)
  have reg2: "listeners st3 s2 = Some U" "socketToUser st3 s2 = Some U"
    using assms(3) by (simp_all add: l3 l2 s3 s2)
  from disconnect_last [OF reg2 count3 f3, of t4]
  obtain st4 where d4: "disconnect s2 t4 st3 = (None, st4)"
    and n4: "onlineCounts st4 = (onlineCounts st3)(U := None)"
    and f4: "User_findById U (store st4)
             = Inr (Some (u0\<lparr>isOnline := True, lastSeen := t1\<rparr>\<lparr>isOnline := True, lastSeen := t2\<rparr>
                            \<lparr>isOnline := False, lastSeen := t4\<rparr>))"
    and e4: "emitted st4
             = emitted st3 @ [(''presence:watch:'' @ U, PresenceUpdate U False t4),
                              (''user:'' @ U, PresenceUpdate U False t4)]"
    by blast
  show "\<exists>st1 st2 st3 st4 u3 u4.
            connection s1 (Some U) t1 st0 = (None, st1)
          \<and> connection s2 (Some U) t2 st1 = (None, st2)
          \<and> onlineCounts st2 U = Some 2
          \<and> disconnect s1 t3 st2 = (None, st3)
          \<and> User_findById U (store st3) = Inr (Some u3) \<and> isOnline u3
          \<and> emitted st3 = emitted st2
          \<and> onlineCounts st3 U = Some 1
          \<and> disconnect s2 t4 st3 = (None, st4)
          \<and> User_findById U (store st4) = Inr (Some u4)
          \<and> \<not> isOnline u4 \<and> lastSeen u4 = t4
          \<and> emitted st4
              = emitted st3 @ [(''presence:watch:'' @ U, PresenceUpdate U False t4),
                               (''user:'' @ U, PresenceUpdate U False t4)]
          \<and> onlineCounts st4 U = None"
    apply (rule exI [of _ st1], rule exI [of _ st2], rule exI [of _ st3], rule exI [of _ st4])
    apply (rule exI [of _ "u0\<lparr>isOnline := True, lastSeen := t1\<rparr>\<lparr>isOnline := True, lastSeen := t2\<rparr>"])
    apply (rule exI [of _ "u0\<lparr>isOnline := True, lastSeen := t1\<rparr>\<lparr>isOnline := True, lastSeen := t2\<rparr>
                            \<lparr>isOnline := False, lastSeen := t4\<rparr>"])
    apply (simp add: c1 c2 count2 d3 f3 e3 count3 d4 f4 e4 n4)
    done
next
  show "\<forall>acts d v n. onlineCounts (run acts (initial d)) v = Some n \<longrightarrow> 0 \<le> n"
  proof (intro allI impI)
    fix acts d v n
    assume h: "onlineCounts (run acts (initial d)) v = Some n"
    have "\<forall>u n. onlineCounts (initial d) u = Some n \<longrightarrow> 1 \<le> n"
      by (simp add: initial_def)
    from run_counts_positive [OF this, of acts] h have "1 \<le> n" by blast
    then show "0 \<le> n" by simp
  qed
qed

theorem two_sessions_presence_witness:
  "User_findById ''aaaaaaaaaaaaaaaaaaaaaaaa''
     (store (initial \<lparr>users = [\<lparr>u_id = ''aaaaaaaaaaaaaaaaaaaaaaaa'', isOnline = False,
                                 lastSeen = 0\<rparr>],
                      conversations = [], messages = []\<rparr>))
   = Inr (Some \<lparr>u_id = ''aaaaaaaaaaaaaaaaaaaaaaaa'', isOnline = False, lastSeen = 0\<rparr>)
   \<and> onlineCounts (initial \<lparr>users = [\<lparr>u_id = ''aaaaaaaaaaaaaaaaaaaaaaaa'', isOnline = False,
                                 lastSeen = 0\<rparr>],
                      conversations = [], messages = []\<rparr>) ''aaaaaaaaaaaaaaaaaaaaaaaa'' = None
   \<and> ''s1'' \<noteq> ''s2''
   \<and> (\<exists>st1 st2 st3 st4.
         connection ''s1'' (Some ''aaaaaaaaaaaaaaaaaaaaaaaa'') 1
           (initial \<lparr>users = [\<lparr>u_id = ''aaaaaaaaaaaaaaaaaaaaaaaa'', isOnline = False,
                                 lastSeen = 0\<rparr>],
                      conversations = [], messages = []\<rparr>) = (None, st1)
       \<and> connection ''s2'' (Some ''aaaaaaaaaaaaaaaaaaaaaaaa'') 2 st1 = (None, st2)
       \<and> disconnect ''s1'' 3 st2 = (None, st3)
       \<and> emitted st3 = emitted st2
       \<and> disconnect ''s2'' 4 st3 = (None, st4)
       \<and> emitted st4
           = emitted st3
             @ [(''presence:watch:'' @ ''aaaaaaaaaaaaaaaaaaaaaaaa'',
                 PresenceUpdate ''aaaaaaaaaaaaaaaaaaaaaaaa'' False 4),
                (''user:'' @ ''aaaaaaaaaaaaaaaaaaaaaaaa'',
                 PresenceUpdate ''aaaaaaaaaaaaaaaaaaaaaaaa'' False 4)])"
proof -
  let ?st0 = "initial \<lparr>users = [\<lparr>u_id = ''aaaaaaaaaaaaaaaaaaaaaaaa'', isOnline = False,
                                 lastSeen = 0\<rparr>],
                      conversations = [], messages = []\<rparr>"
  have u: "User_findById ''aaaaaaaaaaaaaaaaaaaaaaaa'' (store ?st0)
           = Inr (Some \<lparr>u_id = ''aaaaaaaaaaaaaaaaaaaaaaaa'', isOnline = False, lastSeen = 0\<rparr>)"
    by (simp add: User_findById_def initial_def isValid_def isHex_def oidOf_def hexLower_def)
  have n: "onlineCounts ?st0 ''aaaaaaaaaaaaaaaaaaaaaaaa'' = None"
    by (simp add: initial_def)
  have s: "''s1'' \<noteq> ''s2''" by simp
  from two_sessions_presence [OF u n s, of 1 2 3 4]
  have "\<exists>st1 st2 st3 st4.
         connection ''s1'' (Some ''aaaaaaaaaaaaaaaaaaaaaaaa'') 1 ?st0 = (None, st1)
       \<and> connection ''s2'' (Some ''aaaaaaaaaaaaaaaaaaaaaaaa'') 2 st1 = (None, st2)
       \<and> disconnect ''s1'' 3 st2 = (None, st3)
       \<and> emitted st3 = emitted st2
       \<and> disconnect ''s2'' 4 st3 = (None, st4)
       \<and> emitted st4
           = emitted st3
             @ [(''presence:watch:'' @ ''aaaaaaaaaaaaaaaaaaaaaaaa'',
                 PresenceUpdate ''aaaaaaaaaaaaaaaaaaaaaaaa'' False 4),
                (''user:'' @ ''aaaaaaaaaaaaaaaaaaaaaaaa'',
                 PresenceUpdate ''aaaaaaaaaaaaaaaaaaaaaaaa'' False 4)]"
    by blast
  with u n s show ?thesis by blast
qed

section \<open>Event router\<close>

lemma count_absent:
  "sid \<notin> set xs
   \<Longrightarrow> length (filter (\<lambda>x. x = (sid, pkt)) (map (\<lambda>s. (s, pkt)) (filter P xs))) = 0"
  by (induction xs) auto

lemma count_in_room:
  assumes "distinct xs" and "sid \<in> set xs"
  shows "length (filter (\<lambda>x. x = (sid, pkt)) (map (\<lambda>s. (s, pkt)) (filter P xs)))
         = (if P sid then 1 else 0)"
  using assms
proof (induction xs)
  case Nil
  then show ?case by simp
next
  case (Cons x xs)
  show ?case
  proof (cases "x = sid")
    case True
    with Cons.prems have "sid \<notin> set xs" by simp
    from count_absent [OF this, of pkt P] True show ?thesis by simp
  next
    case False
    with Cons show ?thesis by (auto split: if_splits)
  qed
qed

lemma received_io_to_emit:
  assumes "distinct (connected st)" and "sid \<in> set (connected st)"
  shows "received sid pkt (io_to_emit room pkt st)
         = received sid pkt st + (if room \<in> rooms st sid then 1 else 0)"
  using count_in_room [OF assms, of pkt "\<lambda>s. room \<in> rooms st s"]
  by (simp add: received_def io_to_emit_def)

lemma io_to_emit_frame:
  "connected (io_to_emit room pkt st) = connected st"
  "rooms (io_to_emit room pkt st) = rooms st"
  by (simp_all add: io_to_emit_def)

text \<open>
  Claim C1, as the code has it. The router makes one \<open>io.to(group).emit\<close> per target group
  of the event, so a connected session is handed the event once for each target group it
  belongs to: at most once when it is in at most one of them, and never more often than
  the event has target groups (three for \<^verbatim>\<open>message:new\<close> and \<^verbatim>\<open>message:deleted\<close> for
  everyone, one for \<^verbatim>\<open>message:read\<close> and \<^verbatim>\<open>message:deleted\<close> for the caller, two for
  \<^verbatim>\<open>presence:update\<close>).
\<close>

theorem router_delivers_once_per_group:
  assumes "distinct (connected st)" and "sid \<in> set (connected st)" and "secret \<noteq> []"
  shows "received sid (Routed type p)
           (snd (internal_realtime secret (Some secret) (Some type) (Some p) st))
         = received sid (Routed type p) st
           + length (filter (\<lambda>room. room \<in> rooms st sid) (routing_groups type p))
       \<and> length (filter (\<lambda>room. room \<in> rooms st sid) (routing_groups type p)) \<le> 3
       \<and> received sid (PresenceUpdate U online seen) (emitPresenceUpdate U online seen st)
         = received sid (PresenceUpdate U online seen) st
           + length (filter (\<lambda>room. room \<in> rooms st sid)
                       [''presence:watch:'' @ U, ''user:'' @ U])"
proof (intro conjI)
  note r = received_io_to_emit io_to_emit_frame
  show "received sid (Routed type p)
           (snd (internal_realtime secret (Some secret) (Some type) (Some p) st))
         = received sid (Routed type p) st
           + length (filter (\<lambda>room. room \<in> rooms st sid) (routing_groups type p))"
    using assms
    by (simp add: internal_realtime_def routing_groups_def Let_def r)
  show "length (filter (\<lambda>room. room \<in> rooms st sid) (routing_groups type p)) \<le> 3"
    by (simp add: routing_groups_def)
  show "received sid (PresenceUpdate U online seen) (emitPresenceUpdate U online seen st)
         = received sid (PresenceUpdate U online seen) st
           + length (filter (\<lambda>room. room \<in> rooms st sid)
                       [''presence:watch:'' @ U, ''user:'' @ U])"
    using assms by (simp add: emitPresenceUpdate_def r)
qed

theorem router_delivers_once_per_group_witness:
  "distinct (connected
      ((initial \<lparr>users = [], conversations = [], messages = []\<rparr>)
         \<lparr>connected := [''s1'', ''s2''],
          rooms := (\<lambda>_. {})(''s1'' := {''user:alice'', ''conversation:c1''},
                              ''s2'' := {''user:bob''})\<rparr>))
   \<and> ''s2'' \<in> set (connected
      ((initial \<lparr>users = [], conversations = [], messages = []\<rparr>)
         \<lparr>connected := [''s1'', ''s2''],
          rooms := (\<lambda>_. {})(''s1'' := {''user:alice'', ''conversation:c1''},
                              ''s2'' := {''user:bob''})\<rparr>))
   \<and> ''k'' \<noteq> []
   \<and> received ''s2''
        (Routed ''message:new''
           (emptyPayload\<lparr>p_conversationId := Some ''c1'', p_senderId := Some ''alice'',
                          p_recipientId := Some ''bob''\<rparr>))
        (snd (internal_realtime ''k'' (Some ''k'') (Some ''message:new'')
           (Some (emptyPayload\<lparr>p_conversationId := Some ''c1'', p_senderId := Some ''alice'',
                                p_recipientId := Some ''bob''\<rparr>))
           ((initial \<lparr>users = [], conversations = [], messages = []\<rparr>)
              \<lparr>connected := [''s1'', ''s2''],
               rooms := (\<lambda>_. {})(''s1'' := {''user:alice'', ''conversation:c1''},
                                   ''s2'' := {''user:bob''})\<rparr>))) = 1"
proof -
  let ?st = "(initial \<lparr>users = [], conversations = [], messages = []\<rparr>)
         \<lparr>connected := [''s1'', ''s2''],
          rooms := (\<lambda>_. {})(''s1'' := {''user:alice'', ''conversation:c1''},
                              ''s2'' := {''user:bob''})\<rparr>"
  let ?p = "emptyPayload\<lparr>p_conversationId := Some ''c1'', p_senderId := Some ''alice'',
                          p_recipientId := Some ''bob''\<rparr>"
  have d: "distinct (connected ?st)" by simp
  have m: "''s2'' \<in> set (connected ?st)" by simp
  have k: "''k'' \<noteq> []" by simp
  have before: "received ''s2'' (Routed ''message:new'' ?p) ?st = 0"
    by (simp add: received_def initial_def)
  have groups: "length (filter (\<lambda>room. room \<in> rooms ?st ''s2'')
                     (routing_groups ''message:new'' ?p)) = 1"
    by (simp add: routing_groups_def tmpl_def emptyPayload_def)
  from router_delivers_once_per_group [OF d m k, of "''message:new''" ?p] before groups
  have "received ''s2'' (Routed ''message:new'' ?p)
          (snd (internal_realtime ''k'' (Some ''k'') (Some ''message:new'') (Some ?p) ?st)) = 1"
    by simp
  with d m k show ?thesis by blast
qed

text \<open>
  The claim as stated fails: a session of the sender that has joined the conversation
  group is also in the sender's inbox group, and is handed one \<^verbatim>\<open>message:new\<close> twice.
\<close>

theorem sender_session_receives_twice_counterexample:
  "received ''s1''
     (Routed ''message:new''
        (emptyPayload\<lparr>p_conversationId := Some ''c1'',
                       p_senderId := Some ''aaaaaaaaaaaaaaaaaaaaaaaa'',
                       p_recipientId := Some ''bbbbbbbbbbbbbbbbbbbbbbbb''\<rparr>))
     (run [Connection ''s1'' (Some ''aaaaaaaaaaaaaaaaaaaaaaaa'') 1,
           ConversationJoin ''s1'' (Some ''c1''),
           Internal ''k'' (Some ''k'') (Some ''message:new'')
             (Some (emptyPayload\<lparr>p_conversationId := Some ''c1'',
                                  p_senderId := Some ''aaaaaaaaaaaaaaaaaaaaaaaa'',
                                  p_recipientId := Some ''bbbbbbbbbbbbbbbbbbbbbbbb''\<rparr>))]
        (initial \<lparr>users = [], conversations = [], messages = []\<rparr>)) = 2"
  by (simp add: received_def initial_def connection_def conversation_join_def
      internal_realtime_def io_to_emit_def socket_join_def emitPresenceUpdate_def
      User_findByIdAndUpdate_def isValid_def isHex_def orElse_def tmpl_def emptyPayload_def
      Let_def)

section \<open>Read receipts\<close>

lemma nothing_unread_after_marking:
  fixes P :: "message \<Rightarrow> bool"
  assumes "\<And>m. P m \<Longrightarrow> me \<notin> set (readBy m)"
    and "\<And>m r. me \<in> set r \<Longrightarrow> \<not> P (m\<lparr>readBy := r\<rparr>)"
  shows "filter P
           (map (\<lambda>m. if m_id m \<in> set (map m_id (filter P ms))
                     then m\<lparr>readBy := addToSet me (readBy m)\<rparr> else m) ms) = []"
proof -
  have "\<not> P (if m_id m \<in> set (map m_id (filter P ms))
               then m\<lparr>readBy := addToSet me (readBy m)\<rparr> else m)"
    if "m \<in> set ms" for m
  proof (cases "m_id m \<in> set (map m_id (filter P ms))")
    case True
    have "me \<in> set (addToSet me (readBy m))" by (simp add: addToSet_def)
    from assms(2) [OF this] True show ?thesis by simp
  next
    case False
    with that have "\<not> P m" by auto
    with False show ?thesis by simp
  qed
  then have "\<forall>x \<in> set (map (\<lambda>m. if m_id m \<in> set (map m_id (filter P ms))
                     then m\<lparr>readBy := addToSet me (readBy m)\<rparr> else m) ms). \<not> P x"
    unfolding set_map by blast
  then show ?thesis unfolding filter_empty_conv .
qed

text \<open>
  Claim C9. When a mark-read call has answered with a count, every message of the
  conversation that is addressed to the caller and not hidden for the caller has the
  caller in \<open>readBy\<close>, and an immediately repeated call answers \<open>updated = 0\<close>, emits no
  event and leaves the store as it is.
\<close>

theorem mark_read_idempotent:
  assumes "POST_read (Some authUserId) b_conversationId d = (Inr n, d1, events)"
  shows "POST_read (Some authUserId) b_conversationId d1 = (Inr 0, d1, [])
       \<and> (\<forall>m \<in> set (messages d1).
             conversationId m = oidOf (trim (orDefault b_conversationId []))
             \<and> recipientId m = oidOf authUserId
             \<and> oidOf authUserId \<notin> set (m_hiddenFor m)
             \<longrightarrow> oidOf authUserId \<in> set (readBy m))"
proof -
  let ?cid = "trim (orDefault b_conversationId [])"
  let ?me = "oidOf authUserId"
  let ?P = "\<lambda>m. conversationId m = oidOf ?cid \<and> recipientId m = ?me
              \<and> ?me \<notin> set (readBy m) \<and> ?me \<notin> set (m_hiddenFor m)"
  from assms have ok: "?cid \<noteq> []" "isValid ?cid" "isValid authUserId"
    by (auto simp: POST_read_def Let_def ObjectId_def split: if_splits)
  have d1: "filter ?P (messages d1) = []"
  proof (cases "filter ?P (messages d) = []")
    case True
    with assms ok have "d1 = d" by (simp add: POST_read_def Let_def ObjectId_def)
    with True show ?thesis by simp
  next
    case False
    with assms ok have "messages d1 =
        map (\<lambda>m. if m_id m \<in> set (map m_id (filter ?P (messages d)))
                  then m\<lparr>readBy := addToSet ?me (readBy m)\<rparr> else m) (messages d)"
      by (auto simp: POST_read_def Let_def ObjectId_def)
    moreover have "filter ?P
           (map (\<lambda>m. if m_id m \<in> set (map m_id (filter ?P (messages d)))
                     then m\<lparr>readBy := addToSet ?me (readBy m)\<rparr> else m) (messages d)) = []"
      by (rule nothing_unread_after_marking) simp_all
    ultimately show ?thesis by simp
  qed
  from d1 ok have "POST_read (Some authUserId) b_conversationId d1 = (Inr 0, d1, [])"
    by (simp add: POST_read_def Let_def ObjectId_def)
  moreover from d1 have "\<forall>m \<in> set (messages d1).
             conversationId m = oidOf ?cid \<and> recipientId m = ?me
             \<and> ?me \<notin> set (m_hiddenFor m) \<longrightarrow> ?me \<in> set (readBy m)"
    by (auto simp: filter_empty_conv)
  ultimately show ?thesis by blast
qed

theorem mark_read_idempotent_witness:
  "POST_read (Some ''bbbbbbbbbbbbbbbbbbbbbbbb'') (Some ''c00000000000000000000001'')
     \<lparr>users = [], conversations = [],
      messages = [\<lparr>m_id = ''e00000000000000000000001'',
                   conversationId = ''c00000000000000000000001'',
                   senderId = ''aaaaaaaaaaaaaaaaaaaaaaaa'',
                   recipientId = ''bbbbbbbbbbbbbbbbbbbbbbbb'',
                   m_text = ''hello'', readBy = [''aaaaaaaaaaaaaaaaaaaaaaaa''],
                   m_hiddenFor = [], isDeletedForEveryone = False, deletedAt = None,
                   createdAt = 5\<rparr>]\<rparr>
   = (Inr 1,
      \<lparr>users = [], conversations = [],
       messages = [\<lparr>m_id = ''e00000000000000000000001'',
                    conversationId = ''c00000000000000000000001'',
                    senderId = ''aaaaaaaaaaaaaaaaaaaaaaaa'',
                    recipientId = ''bbbbbbbbbbbbbbbbbbbbbbbb'',
                    m_text = ''hello'',
                    readBy = [''aaaaaaaaaaaaaaaaaaaaaaaa'', ''bbbbbbbbbbbbbbbbbbbbbbbb''],
                    m_hiddenFor = [], isDeletedForEveryone = False, deletedAt = None,
                    createdAt = 5\<rparr>]\<rparr>,
      [(''message:read'',
        emptyPayload\<lparr>p_conversationId := Some ''c00000000000000000000001'',
                       p_readerId := Some ''bbbbbbbbbbbbbbbbbbbbbbbb'',
                       p_messageIds := [''e00000000000000000000001'']\<rparr>)])
   \<and> POST_read (Some ''bbbbbbbbbbbbbbbbbbbbbbbb'') (Some ''c00000000000000000000001'')
       \<lparr>users = [], conversations = [],
        messages = [\<lparr>m_id = ''e00000000000000000000001'',
                     conversationId = ''c00000000000000000000001'',
                     senderId = ''aaaaaaaaaaaaaaaaaaaaaaaa'',
                     recipientId = ''bbbbbbbbbbbbbbbbbbbbbbbb'',
                     m_text = ''hello'',
                     readBy = [''aaaaaaaaaaaaaaaaaaaaaaaa'', ''bbbbbbbbbbbbbbbbbbbbbbbb''],
                     m_hiddenFor = [], isDeletedForEveryone = False, deletedAt = None,
                     createdAt = 5\<rparr>]\<rparr>
     = (Inr 0,
        \<lparr>users = [], conversations = [],
         messages = [\<lparr>m_id = ''e00000000000000000000001'',
                      conversationId = ''c00000000000000000000001'',
                      senderId = ''aaaaaaaaaaaaaaaaaaaaaaaa'',
                      recipientId = ''bbbbbbbbbbbbbbbbbbbbbbbb'',
                      m_text = ''hello'',
                      readBy = [''aaaaaaaaaaaaaaaaaaaaaaaa'', ''bbbbbbbbbbbbbbbbbbbbbbbb''],
                      m_hiddenFor = [], isDeletedForEveryone = False, deletedAt = None,
                      createdAt = 5\<rparr>]\<rparr>,
        [])"
proof -
  have first: "POST_read (Some ''bbbbbbbbbbbbbbbbbbbbbbbb'') (Some ''c00000000000000000000001'')
     \<lparr>users = [], conversations = [],
      messages = [\<lparr>m_id = ''e00000000000000000000001'',
                   conversationId = ''c00000000000000000000001'',
                   senderId = ''aaaaaaaaaaaaaaaaaaaaaaaa'',
                   recipientId = ''bbbbbbbbbbbbbbbbbbbbbbbb'',
                   m_text = ''hello'', readBy = [''aaaaaaaaaaaaaaaaaaaaaaaa''],
                   m_hiddenFor = [], isDeletedForEveryone = False, deletedAt = None,
                   createdAt = 5\<rparr>]\<rparr>
   = (Inr 1,
      \<lparr>users = [], conversations = [],
       messages = [\<lparr>m_id = ''e00000000000000000000001'',
                    conversationId = ''c00000000000000000000001'',
                    senderId = ''aaaaaaaaaaaaaaaaaaaaaaaa'',
                    recipientId = ''bbbbbbbbbbbbbbbbbbbbbbbb'',
                    m_text = ''hello'',
                    readBy = [''aaaaaaaaaaaaaaaaaaaaaaaa'', ''bbbbbbbbbbbbbbbbbbbbbbbb''],
                    m_hiddenFor = [], isDeletedForEveryone = False, deletedAt = None,
                    createdAt = 5\<rparr>]\<rparr>,
      [(''message:read'',
        emptyPayload\<lparr>p_conversationId := Some ''c00000000000000000000001'',
                       p_readerId := Some ''bbbbbbbbbbbbbbbbbbbbbbbb'',
                       p_messageIds := [''e00000000000000000000001'']\<rparr>)])"
    by (simp add: POST_read_def Let_def ObjectId_def isValid_def isHex_def oidOf_def
        hexLower_def trim_def isSpace_def orDefault_def addToSet_def)
  from mark_read_idempotent [OF first] first show ?thesis by blast
qed

section \<open>Sending a message\<close>

lemma getOrCreateConversation_cases:
  assumes "getOrCreateConversation A B newId now d = Inr (c, d1)"
  shows "isValid A
       \<and> ((Conversation_findOne (buildParticipantKey A B) d = Some c \<and> d1 = d)
          \<or> (Conversation_findOne (buildParticipantKey A B) d = None \<and> isValid B
             \<and> c = \<lparr>c_id = newId, participants = [oidOf A, oidOf B],
                     participantKey = buildParticipantKey A B, c_hiddenFor = [],
                     lastMessageText = [], lastMessageAt = now\<rparr>
             \<and> d1 = d\<lparr>conversations := conversations d @ [c]\<rparr>))"
proof -
  from assms have valid: "isValid A"
    by (auto simp: getOrCreateConversation_def goc_lookup_def ObjectId_def split: if_splits)
  show ?thesis
  proof (cases "Conversation_findOne (buildParticipantKey A B) d")
    case None
    from assms valid None have b: "isValid B"
      by (auto simp: getOrCreateConversation_def goc_lookup_def goc_complete_def ObjectId_def
          split: if_splits)
    from goc_absent [OF valid b None, of newId now] assms valid b None show ?thesis by simp
  next
    case (Some c0)
    from goc_found [OF valid Some, of newId now] assms valid Some show ?thesis by simp
  qed
qed

lemma getOrCreateConversation_result:
  assumes "getOrCreateConversation A B newId now d = Inr (c, d1)"
  shows "c \<in> set (conversations d1)
       \<and> messages d1 = messages d \<and> users d1 = users d \<and> isValid A"
proof -
  from getOrCreateConversation_cases [OF assms]
  have valid: "isValid A"
    and cases: "(Conversation_findOne (buildParticipantKey A B) d = Some c \<and> d1 = d)
          \<or> (d1 = d\<lparr>conversations := conversations d @ [c]\<rparr>)"
    by auto
  from cases show ?thesis
  proof
    assume h: "Conversation_findOne (buildParticipantKey A B) d = Some c \<and> d1 = d"
    then have "c \<in> set (conversations d)"
      unfolding Conversation_findOne_def by (auto dest: find_Some_member)
    with h valid show ?thesis by simp
  next
    assume "d1 = d\<lparr>conversations := conversations d @ [c]\<rparr>"
    with valid show ?thesis by simp
  qed
qed

text \<open>
  \<open>save\<close> on a conversation leaves every stored preview, key and hidden mark as it was,
  whatever the handler assigned to the object in memory.
\<close>

lemma Conversation_save_keeps:
  "map (\<lambda>c. (c_id c, participantKey c, c_hiddenFor c, lastMessageText c, lastMessageAt c))
     (conversations (Conversation_save doc d))
   = map (\<lambda>c. (c_id c, participantKey c, c_hiddenFor c, lastMessageText c, lastMessageAt c))
       (conversations d)"
  by (simp add: Conversation_save_def)

lemma Conversation_save_frame:
  "messages (Conversation_save doc d) = messages d \<and> users (Conversation_save doc d) = users d"
  by (simp add: Conversation_save_def)

text \<open>What an accepted send has done, and that a rejected one has emitted nothing.\<close>

lemma POST_messages_accepted:
  assumes "POST_messages up sanitizeHtml (Some authUserId) b_toUserId b_text newConvId newMsgId
             now d = (Inr v, d', events)"
  shows "\<exists>recipient conversation d1.
           up 0 \<and> up 1 \<and> up 2 \<and> up 3
         \<and> isValid (trim (orDefault b_toUserId []))
         \<and> trim (take 2000 (sanitizeMessage sanitizeHtml (orDefault b_text []))) \<noteq> []
         \<and> User_findById (trim (orDefault b_toUserId [])) d = Inr (Some recipient)
         \<and> getOrCreateConversation authUserId (trim (orDefault b_toUserId [])) newConvId now d
             = Inr (conversation, d1)
         \<and> v = \<lparr>v_id = newMsgId, v_conversationId = c_id conversation,
                 v_senderId = authUserId,
                 v_recipientId = trim (orDefault b_toUserId []),
                 v_text = take 2000 (sanitizeMessage sanitizeHtml (orDefault b_text [])),
                 v_readBy = [authUserId], v_isDeletedForEveryone = False,
                 v_deletedAt = None, v_createdAt = now\<rparr>
         \<and> d' = Conversation_save
                  (conversation
                     \<lparr>lastMessageText :=
                        take 2000 (sanitizeMessage sanitizeHtml (orDefault b_text [])),
                      lastMessageAt := now\<rparr>)
                  (d1\<lparr>messages := messages d1 @
                        [\<lparr>m_id = newMsgId, conversationId = c_id conversation,
                          senderId = oidOf authUserId,
                          recipientId = oidOf (trim (orDefault b_toUserId [])),
                          m_text = trim (take 2000
                                     (sanitizeMessage sanitizeHtml (orDefault b_text []))),
                          readBy = [oidOf authUserId], m_hiddenFor = [],
                          isDeletedForEveryone = False, deletedAt = None,
                          createdAt = now\<rparr>]\<rparr>)
         \<and> events =
             [(''message:new'',
               emptyPayload
                 \<lparr>p_conversationId := Some (c_id conversation),
                  p_messageId := Some newMsgId,
                  p_senderId := Some authUserId,
                  p_recipientId := Some (trim (orDefault b_toUserId [])),
                  p_text := Some (take 2000 (sanitizeMessage sanitizeHtml (orDefault b_text []))),
                  p_at := Some now\<rparr>)]"
  using assms
  by (auto simp: POST_messages_def Message_create_def Let_def ObjectId_def
      split: if_splits sum.splits option.splits prod.splits)

lemma POST_messages_rejected:
  assumes "POST_messages up sanitizeHtml (Some authUserId) b_toUserId b_text newConvId newMsgId
             now d = (Inl e, d', events)"
  shows "events = []"
  using assms
  by (auto simp: POST_messages_def Let_def
      split: if_splits sum.splits option.splits prod.splits)

text \<open>
  No send changes the preview of a conversation that was in the store: the previews after
  the request are the previews before it, followed by the empty preview of the conversation
  the request created, if it created one.
\<close>

lemma POST_messages_keeps_previews:
  assumes "POST_messages up sanitizeHtml (Some authUserId) b_toUserId b_text newConvId newMsgId
             now d = (res, d', events)"
  shows "map (\<lambda>c. (c_id c, lastMessageText c, lastMessageAt c)) (conversations d')
           = map (\<lambda>c. (c_id c, lastMessageText c, lastMessageAt c)) (conversations d)
       \<or> map (\<lambda>c. (c_id c, lastMessageText c, lastMessageAt c)) (conversations d')
           = map (\<lambda>c. (c_id c, lastMessageText c, lastMessageAt c)) (conversations d)
               @ [(newConvId, [], now)]"
proof -
  let ?pv = "\<lambda>c. (c_id c, lastMessageText c, lastMessageAt c)"
  have save: "map ?pv (conversations (Conversation_save doc x)) = map ?pv (conversations x)"
    for doc x
    by (simp add: Conversation_save_def)
  have goc: "map ?pv (conversations d1) = map ?pv (conversations d)
       \<or> map ?pv (conversations d1) = map ?pv (conversations d) @ [(newConvId, [], now)]"
    if "getOrCreateConversation authUserId B newConvId now d = Inr (c, d1)" for B c d1
    using getOrCreateConversation_cases [OF that] by auto
  have create: "conversations d2 = conversations d1"
    if "Message_create doc d1 = Inr (m, d2)" for doc d1 m d2
    using that by (auto simp: Message_create_def Let_def split: if_splits)
  from assms show ?thesis
    unfolding POST_messages_def Let_def
    by (auto simp: save split: if_splits sum.splits option.splits prod.splits
        dest!: goc create)
qed

text \<open>
  Claim C6, evaluated on the code. Two users have a conversation with an empty preview,
  created at time 10. At time 50 the first sends \<^verbatim>\<open>hello\<close> to the second and every
  persistence step succeeds: the handler answers with the message, stores it with
  \<open>readBy = [sender]\<close> and emits the one \<^verbatim>\<open>message:new\<close> event, but the stored conversation
  keeps its empty preview text and the time 10. The handler assigned the preview to the
  object in memory, and \<open>save\<close> did not write it.
\<close>

theorem send_message_preview_not_persisted:
  "POST_messages (\<lambda>n. True) (\<lambda>s. s) (Some ''aaaaaaaaaaaaaaaaaaaaaaaa'')
     (Some ''bbbbbbbbbbbbbbbbbbbbbbbb'') (Some ''hello'')
     ''c00000000000000000000002'' ''d00000000000000000000001'' 50
     \<lparr>users =
        [\<lparr>u_id = ''aaaaaaaaaaaaaaaaaaaaaaaa'', isOnline = True, lastSeen = 5\<rparr>,
         \<lparr>u_id = ''bbbbbbbbbbbbbbbbbbbbbbbb'', isOnline = False, lastSeen = 7\<rparr>],
      conversations =
        [\<lparr>c_id = ''c00000000000000000000001'',
          participants = [''aaaaaaaaaaaaaaaaaaaaaaaa'', ''bbbbbbbbbbbbbbbbbbbbbbbb''],
          participantKey = ''aaaaaaaaaaaaaaaaaaaaaaaa:bbbbbbbbbbbbbbbbbbbbbbbb'',
          c_hiddenFor = [], lastMessageText = [], lastMessageAt = 10\<rparr>],
      messages = []\<rparr>
   = (Inr \<lparr>v_id = ''d00000000000000000000001'',
           v_conversationId = ''c00000000000000000000001'',
           v_senderId = ''aaaaaaaaaaaaaaaaaaaaaaaa'',
           v_recipientId = ''bbbbbbbbbbbbbbbbbbbbbbbb'',
           v_text = ''hello'',
           v_readBy = [''aaaaaaaaaaaaaaaaaaaaaaaa''],
           v_isDeletedForEveryone = False, v_deletedAt = None, v_createdAt = 50\<rparr>,
      \<lparr>users =
         [\<lparr>u_id = ''aaaaaaaaaaaaaaaaaaaaaaaa'', isOnline = True, lastSeen = 5\<rparr>,
          \<lparr>u_id = ''bbbbbbbbbbbbbbbbbbbbbbbb'', isOnline = False, lastSeen = 7\<rparr>],
       conversations =
         [\<lparr>c_id = ''c00000000000000000000001'',
           participants = [''aaaaaaaaaaaaaaaaaaaaaaaa'', ''bbbbbbbbbbbbbbbbbbbbbbbb''],
           participantKey = ''aaaaaaaaaaaaaaaaaaaaaaaa:bbbbbbbbbbbbbbbbbbbbbbbb'',
           c_hiddenFor = [], lastMessageText = [], lastMessageAt = 10\<rparr>],
       messages =
         [\<lparr>m_id = ''d00000000000000000000001'',
           conversationId = ''c00000000000000000000001'',
           senderId = ''aaaaaaaaaaaaaaaaaaaaaaaa'',
           recipientId = ''bbbbbbbbbbbbbbbbbbbbbbbb'',
           m_text = ''hello'',
           readBy = [''aaaaaaaaaaaaaaaaaaaaaaaa''],
           m_hiddenFor = [], isDeletedForEveryone = False, deletedAt = None,
           createdAt = 50\<rparr>]\<rparr>,
      [(''message:new'',
        emptyPayload
          \<lparr>p_conversationId := Some ''c00000000000000000000001'',
           p_messageId := Some ''d00000000000000000000001'',
           p_senderId := Some ''aaaaaaaaaaaaaaaaaaaaaaaa'',
           p_recipientId := Some ''bbbbbbbbbbbbbbbbbbbbbbbb'',
           p_text := Some ''hello'',
           p_at := Some 50\<rparr>)])"
  by code_simp

section \<open>Deleting a message for everyone\<close>

text \<open>
  The handler empties the text of the message before it saves it, and the schema requires
  a text: the save of a delete-for-everyone rejects, whatever the message.
\<close>

lemma Message_save_tombstone:
  "Message_save (message\<lparr>isDeletedForEveryone := True, deletedAt := Some now, m_text := []\<rparr>) d
     = Inl ValidationError"
  by (simp add: Message_save_def)

text \<open>No delete-for-everyone request changes the store or emits an event.\<close>

lemma DELETE_messages_everyone_rejected:
  assumes "toLowerCase (trim (orDefault b_mode ''me'')) = ''everyone''"
  shows "\<exists>e. DELETE_messages authUser b_messageId b_mode now d = (Inl e, d, [])"
  using assms
  by (auto simp: DELETE_messages_def Let_def Message_save_tombstone
      split: option.splits sum.splits)



section \<open>History fetch\<close>

lemma colon_not_hex: "\<not> isHex (CHR '':'')"
  by (simp add: isHex_def)

lemma isValid_no_colon: "isValid a \<Longrightarrow> CHR '':'' \<notin> set a"
proof
  assume "isValid a" and "CHR '':'' \<in> set a"
  then have "isHex (CHR '':'')" unfolding isValid_def list_all_iff by blast
  with colon_not_hex show False by simp
qed

lemma key_parts_join:
  assumes "CHR '':'' \<notin> set a"
  shows "key_parts (a @ '':'' @ b) = (a, b)"
proof -
  from assms have all: "\<forall>x \<in> set a. x \<noteq> CHR '':''" by auto
  have "takeWhile (\<lambda>c. c \<noteq> CHR '':'') (a @ CHR '':'' # b) = a"
    using all by (simp add: takeWhile_append2)
  moreover have "dropWhile (\<lambda>c. c \<noteq> CHR '':'') (a @ CHR '':'' # b) = CHR '':'' # b"
    using all by (simp add: dropWhile_append2)
  ultimately show ?thesis by (simp add: key_parts_def)
qed

lemma key_parts_buildParticipantKey:
  assumes "isValid a" and "isValid b"
  shows "key_parts (buildParticipantKey a b) = (if str_lt b a then (b, a) else (a, b))"
  using key_parts_join [OF isValid_no_colon [OF assms(1)], of b]
    key_parts_join [OF isValid_no_colon [OF assms(2)], of a]
  by (simp add: buildParticipantKey_def)

lemma conv_wf_key:
  assumes "conv_wf c" and "participantKey c = buildParticipantKey a b"
    and "isValid a" and "isValid b"
  shows "oidOf a \<in> set (participants c) \<and> oidOf b \<in> set (participants c)"
  using assms(1) key_parts_buildParticipantKey [OF assms(3,4)]
  by (auto simp: conv_wf_def assms(2) split: if_splits)

lemma getOrCreateConversation_wf:
  assumes "store_wf d" and "getOrCreateConversation A B newId now d = Inr (c, d')"
  shows "store_wf d'"
proof -
  from getOrCreateConversation_cases [OF assms(2)]
  have valid: "isValid A"
    and cases: "d' = d
          \<or> (isValid B
             \<and> c = \<lparr>c_id = newId, participants = [oidOf A, oidOf B],
                     participantKey = buildParticipantKey A B, c_hiddenFor = [],
                     lastMessageText = [], lastMessageAt = now\<rparr>
             \<and> d' = d\<lparr>conversations := conversations d @ [c]\<rparr>)"
    by auto
  from cases show ?thesis
  proof
    assume "d' = d"
    with assms(1) show ?thesis by simp
  next
    assume h: "isValid B
             \<and> c = \<lparr>c_id = newId, participants = [oidOf A, oidOf B],
                     participantKey = buildParticipantKey A B, c_hiddenFor = [],
                     lastMessageText = [], lastMessageAt = now\<rparr>
             \<and> d' = d\<lparr>conversations := conversations d @ [c]\<rparr>"
    then have b: "isValid B" by simp
    have "conv_wf \<lparr>c_id = newId, participants = [oidOf A, oidOf B],
                     participantKey = buildParticipantKey A B, c_hiddenFor = [],
                     lastMessageText = [], lastMessageAt = now\<rparr>"
      using key_parts_buildParticipantKey [OF valid b] valid b by (simp add: conv_wf_def)
    with h assms(1) show ?thesis by (simp add: store_wf_def)
  qed
qed

lemma getOrCreateConversation_total:
  assumes "isValid A" and "isValid B"
  shows "\<exists>c d'. getOrCreateConversation A B newId now d = Inr (c, d')
           \<and> Conversation_findOne (buildParticipantKey A B) d' = Some c"
proof (cases "Conversation_findOne (buildParticipantKey A B) d")
  case None
  let ?new = "\<lparr>c_id = newId, participants = [oidOf A, oidOf B],
               participantKey = buildParticipantKey A B, c_hiddenFor = [],
               lastMessageText = [], lastMessageAt = now\<rparr>"
  have "Conversation_findOne (buildParticipantKey A B)
          (d\<lparr>conversations := conversations d @ [?new]\<rparr>) = Some ?new"
    by (rule findOne_after_create [OF None]) simp
  with goc_absent [OF assms None, of newId now] show ?thesis by simp
next
  case (Some c0)
  with goc_found [OF assms(1) Some, of newId now] show ?thesis by simp
qed

text \<open>
  Claim C10. For an authenticated caller and any syntactically valid target identifier,
  the history fetch finds or creates the conversation of the two without consulting the
  users collection: whatever users the store holds, the fetch leaves a conversation
  under the pair's key in the store, leaves the users as they were, and the caller then
  passes the presence-authorization check for the target.
\<close>

theorem history_fetch_creates_conversation:
  assumes "isValid authUserId"
    and "isValid (trim (orDefault q_userId []))"
    and "store_wf d"
  shows "\<exists>c d'.
           getOrCreateConversation authUserId (trim (orDefault q_userId [])) newId now d
             = Inr (c, d')
         \<and> snd (GET_messages sanitizeHtml (Some authUserId) q_userId cursor limit newId now d) = d'
         \<and> (fst (GET_messages sanitizeHtml (Some authUserId) q_userId cursor limit newId now d)
               = Inl TypeError
             \<or> (\<exists>ms next.
                  fst (GET_messages sanitizeHtml (Some authUserId) q_userId cursor limit newId
                         now d) = Inr (c_id c, ms, next)))
         \<and> Conversation_findOne
              (buildParticipantKey authUserId (trim (orDefault q_userId []))) d' = Some c
         \<and> users d' = users d
         \<and> store_wf d'
         \<and> canWatchPresence authUserId (trim (orDefault q_userId [])) d'"
proof -
  let ?t = "trim (orDefault q_userId [])"
  from getOrCreateConversation_total [OF assms(1,2), of newId now d]
  obtain c d' where goc: "getOrCreateConversation authUserId ?t newId now d = Inr (c, d')"
    and found: "Conversation_findOne (buildParticipantKey authUserId ?t) d' = Some c"
    by blast
  have ne: "?t \<noteq> []" "authUserId \<noteq> []"
    using assms(1,2) by (auto simp: isValid_def)
  have users: "users d' = users d"
    using getOrCreateConversation_result [OF goc] by simp
  have wf: "store_wf d'" by (rule getOrCreateConversation_wf [OF assms(3) goc])
  have mem: "c \<in> set (conversations d')"
    using found by (auto simp: Conversation_findOne_def dest: find_Some_member)
  with wf have "conv_wf c" by (simp add: store_wf_def list_all_iff)
  from conv_wf_key [OF this findOne_key [OF found] assms(1,2)] mem
  have "list_ex (\<lambda>c. oidOf authUserId \<in> set (participants c)
                    \<and> oidOf ?t \<in> set (participants c)) (conversations d')"
    by (auto simp: list_ex_iff)
  then have watch: "canWatchPresence authUserId ?t d'"
    using ne assms(1,2) by (simp add: canWatchPresence_def)
  have snd: "snd (GET_messages sanitizeHtml (Some authUserId) q_userId cursor limit newId now d)
             = d'"
    using goc ne assms(1,2) by (simp add: GET_messages_def Let_def ObjectId_def)
  have fst: "fst (GET_messages sanitizeHtml (Some authUserId) q_userId cursor limit newId now d)
               = Inl TypeError
             \<or> (\<exists>ms next.
                  fst (GET_messages sanitizeHtml (Some authUserId) q_userId cursor limit newId
                         now d) = Inr (c_id c, ms, next))"
    using goc ne assms(1,2) by (simp add: GET_messages_def Let_def ObjectId_def)
  from goc snd fst found users wf watch show ?thesis by blast
qed

theorem history_fetch_creates_conversation_witness:
  "isValid ''aaaaaaaaaaaaaaaaaaaaaaaa''
   \<and> isValid (trim (orDefault (Some '' dddddddddddddddddddddddd '') []))
   \<and> store_wf \<lparr>users = [], conversations = [], messages = []\<rparr>
   \<and> User_findById ''dddddddddddddddddddddddd''
        \<lparr>users = [], conversations = [], messages = []\<rparr> = Inr None
   \<and> (\<exists>c d'.
         snd (GET_messages (\<lambda>s. s) (Some ''aaaaaaaaaaaaaaaaaaaaaaaa'')
                (Some '' dddddddddddddddddddddddd '') None 30 ''c00000000000000000000001'' 7
                \<lparr>users = [], conversations = [], messages = []\<rparr>) = d'
       \<and> Conversation_findOne
            (buildParticipantKey ''aaaaaaaaaaaaaaaaaaaaaaaa''
               (trim (orDefault (Some '' dddddddddddddddddddddddd '') []))) d' = Some c
       \<and> users d' = []
       \<and> canWatchPresence ''aaaaaaaaaaaaaaaaaaaaaaaa''
            (trim (orDefault (Some '' dddddddddddddddddddddddd '') [])) d')"
proof -
  let ?d = "\<lparr>users = [], conversations = [], messages = []\<rparr>"
  have a: "isValid ''aaaaaaaaaaaaaaaaaaaaaaaa''" by (simp add: isValid_def isHex_def)
  have t: "isValid (trim (orDefault (Some '' dddddddddddddddddddddddd '') []))"
    by (simp add: isValid_def isHex_def trim_def isSpace_def orDefault_def)
  have wf: "store_wf ?d" by (simp add: store_wf_def)
  have nobody: "User_findById ''dddddddddddddddddddddddd'' ?d = Inr None"
    by (simp add: User_findById_def isValid_def isHex_def)
  from history_fetch_creates_conversation [OF a t wf,
      of "''c00000000000000000000001''" 7 "\<lambda>s. s" None 30]
  have "\<exists>c d'.
         snd (GET_messages (\<lambda>s. s) (Some ''aaaaaaaaaaaaaaaaaaaaaaaa'')
                (Some '' dddddddddddddddddddddddd '') None 30 ''c00000000000000000000001'' 7
                ?d) = d'
       \<and> Conversation_findOne
            (buildParticipantKey ''aaaaaaaaaaaaaaaaaaaaaaaa''
               (trim (orDefault (Some '' dddddddddddddddddddddddd '') []))) d' = Some c
       \<and> users d' = []
       \<and> canWatchPresence ''aaaaaaaaaaaaaaaaaaaaaaaa''
            (trim (orDefault (Some '' dddddddddddddddddddddddd '') [])) d'"
    by auto
  with a t wf nobody show ?thesis by blast
qed

section \<open>Deleting a conversation for the caller\<close>

text \<open>
  Delete-for-me leaves the hidden marks of every stored conversation as they were: the
  handler reads no mark from the document, assigns the new list to the object in memory,
  and \<open>save\<close> does not write it.
\<close>

lemma DELETE_conversations_me_keeps_hidden:
  assumes "toLowerCase (trim (orDefault b_mode ''everyone'')) = ''me''"
  shows "map (\<lambda>c. (c_id c, c_hiddenFor c))
           (conversations (snd (DELETE_conversations authUser b_conversationId b_mode d)))
         = map (\<lambda>c. (c_id c, c_hiddenFor c)) (conversations d)"
  using assms
  by (auto simp: DELETE_conversations_def Let_def Conversation_save_def
      split: option.splits sum.splits)

text \<open>
  Claim C4, evaluated on the code. Two users have a conversation with one message, sent by
  the second to the first. The first deletes the conversation for itself: the handler
  answers with success and marks the message hidden for the caller, but the stored
  conversation has no hidden mark afterwards. The caller's conversation list, fetched
  next, still holds the conversation, now with an empty preview.
\<close>

theorem delete_for_me_conversation_still_listed:
  "DELETE_conversations (Some ''aaaaaaaaaaaaaaaaaaaaaaaa'') (Some ''c00000000000000000000001'')
     (Some ''me'')
     \<lparr>users =
        [\<lparr>u_id = ''aaaaaaaaaaaaaaaaaaaaaaaa'', isOnline = True, lastSeen = 5\<rparr>,
         \<lparr>u_id = ''bbbbbbbbbbbbbbbbbbbbbbbb'', isOnline = False, lastSeen = 7\<rparr>],
      conversations =
        [\<lparr>c_id = ''c00000000000000000000001'',
          participants = [''aaaaaaaaaaaaaaaaaaaaaaaa'', ''bbbbbbbbbbbbbbbbbbbbbbbb''],
          participantKey = ''aaaaaaaaaaaaaaaaaaaaaaaa:bbbbbbbbbbbbbbbbbbbbbbbb'',
          c_hiddenFor = [], lastMessageText = [], lastMessageAt = 10\<rparr>],
      messages =
        [\<lparr>m_id = ''d00000000000000000000001'',
          conversationId = ''c00000000000000000000001'',
          senderId = ''bbbbbbbbbbbbbbbbbbbbbbbb'',
          recipientId = ''aaaaaaaaaaaaaaaaaaaaaaaa'',
          m_text = ''hello'',
          readBy = [''bbbbbbbbbbbbbbbbbbbbbbbb''],
          m_hiddenFor = [], isDeletedForEveryone = False, deletedAt = None,
          createdAt = 12\<rparr>]\<rparr>
   = (Inr (''c00000000000000000000001'', ''me''),
      \<lparr>users =
         [\<lparr>u_id = ''aaaaaaaaaaaaaaaaaaaaaaaa'', isOnline = True, lastSeen = 5\<rparr>,
          \<lparr>u_id = ''bbbbbbbbbbbbbbbbbbbbbbbb'', isOnline = False, lastSeen = 7\<rparr>],
       conversations =
         [\<lparr>c_id = ''c00000000000000000000001'',
           participants = [''aaaaaaaaaaaaaaaaaaaaaaaa'', ''bbbbbbbbbbbbbbbbbbbbbbbb''],
           participantKey = ''aaaaaaaaaaaaaaaaaaaaaaaa:bbbbbbbbbbbbbbbbbbbbbbbb'',
           c_hiddenFor = [], lastMessageText = [], lastMessageAt = 10\<rparr>],
       messages =
         [\<lparr>m_id = ''d00000000000000000000001'',
           conversationId = ''c00000000000000000000001'',
           senderId = ''bbbbbbbbbbbbbbbbbbbbbbbb'',
           recipientId = ''aaaaaaaaaaaaaaaaaaaaaaaa'',
           m_text = ''hello'',
           readBy = [''bbbbbbbbbbbbbbbbbbbbbbbb''],
           m_hiddenFor = [''aaaaaaaaaaaaaaaaaaaaaaaa''], isDeletedForEveryone = False,
           deletedAt = None, createdAt = 12\<rparr>]\<rparr>)
   \<and> GET_conversations (\<lambda>s. s) (Some ''aaaaaaaaaaaaaaaaaaaaaaaa'') 20 None
       (snd (DELETE_conversations (Some ''aaaaaaaaaaaaaaaaaaaaaaaa'')
               (Some ''c00000000000000000000001'') (Some ''me'')
               \<lparr>users =
                  [\<lparr>u_id = ''aaaaaaaaaaaaaaaaaaaaaaaa'', isOnline = True, lastSeen = 5\<rparr>,
                   \<lparr>u_id = ''bbbbbbbbbbbbbbbbbbbbbbbb'', isOnline = False, lastSeen = 7\<rparr>],
                conversations =
                  [\<lparr>c_id = ''c00000000000000000000001'',
                    participants = [''aaaaaaaaaaaaaaaaaaaaaaaa'', ''bbbbbbbbbbbbbbbbbbbbbbbb''],
                    participantKey = ''aaaaaaaaaaaaaaaaaaaaaaaa:bbbbbbbbbbbbbbbbbbbbbbbb'',
                    c_hiddenFor = [], lastMessageText = [], lastMessageAt = 10\<rparr>],
                messages =
                  [\<lparr>m_id = ''d00000000000000000000001'',
                    conversationId = ''c00000000000000000000001'',
                    senderId = ''bbbbbbbbbbbbbbbbbbbbbbbb'',
                    recipientId = ''aaaaaaaaaaaaaaaaaaaaaaaa'',
                    m_text = ''hello'',
                    readBy = [''bbbbbbbbbbbbbbbbbbbbbbbb''],
                    m_hiddenFor = [], isDeletedForEveryone = False, deletedAt = None,
                    createdAt = 12\<rparr>]\<rparr>))
     = Inr ([\<lparr>i_conversationId = ''c00000000000000000000001'',
              i_lastMessageText = [],
              i_lastMessageAt = 10,
              i_user = \<lparr>u_id = ''bbbbbbbbbbbbbbbbbbbbbbbb'', isOnline = False, lastSeen = 7\<rparr>\<rparr>],
            None)"
  by code_simp

end
